theory Spec2Isabelle
  imports Main
begin

section \<open>Data model\<close>

text \<open>
  A Go \<^verbatim>\<open>string\<close> and the contents of a \<^verbatim>\<open>[]byte\<close> are sequences of bytes.
  A \<^verbatim>\<open>[]byte\<close> field may also be the nil slice, which \<^verbatim>\<open>reflect.DeepEqual\<close>
  distinguishes from an empty one: a field is \<open>None\<close> for nil. A pointer to a record is
  an option as well, \<open>None\<close> for the nil pointer.
\<close>

type_synonym bytes = string

text \<open>
  Modelled from the spec: the declarations of \<^verbatim>\<open>caddytls.SiteData\<close> and
  \<^verbatim>\<open>caddytls.UserData\<close> are not part of the repository. Section 3 of the specification
  gives their fields (certificate, private key, metadata; registration, private key),
  the integration test their names.
\<close>

record SiteData =
  Cert :: "bytes option"
  Key :: "bytes option"
  Meta :: "bytes option"

record UserData =
  Reg :: "bytes option"
  Key :: "bytes option"

text \<open>
  Go \<^verbatim>\<open>error\<close> values. \<open>RequestFailure status code\<close> is an error that implements
  \<^verbatim>\<open>awserr.RequestFailure\<close>, with its HTTP status and its error code; \<open>ErrorString\<close>
  is any other error, given by its message (an I/O error, a JSON error, the result of
  \<^verbatim>\<open>fmt.Errorf\<close>).
\<close>

datatype error =
    RequestFailure nat string
  | ErrorString string

text \<open>
  \<^verbatim>\<open>caddytls.ErrNotExist\<close> is declared outside the repository. The test uses it in a type
  assertion, \<^verbatim>\<open>err.(caddytls.ErrNotExist)\<close>, so it is a type; \<^verbatim>\<open>LoadSite\<close> and \<^verbatim>\<open>LoadUser\<close>
  apply it to a value of the interface type \<^verbatim>\<open>error\<close>, a conversion that Go has only to
  an interface type that every \<^verbatim>\<open>error\<close> implements. Such a conversion keeps the value:
  \<^verbatim>\<open>caddytls.ErrNotExist(err)\<close> is \<^verbatim>\<open>err\<close> itself.
\<close>

definition ErrNotExist :: "error \<Rightarrow> error" where
  "ErrNotExist err = err"

text \<open>A call either returns or panics.\<close>

datatype 'a outcome = Return 'a | Panic string

section \<open>The object store\<close>

text \<open>
  A response body is an \<^verbatim>\<open>io.ReadCloser\<close>: it delivers some bytes and then ends, with
  end-of-file (\<open>None\<close>) or with a read error.
\<close>

datatype body = Body bytes "error option"

fun ioutil_ReadAll :: "body \<Rightarrow> error + bytes" where
  "ioutil_ReadAll (Body b None) = Inr b"
| "ioutil_ReadAll (Body b (Some e)) = Inl e"

text \<open>
  The requests the storage sends: \<^verbatim>\<open>s3.HeadObjectInput\<close>, \<^verbatim>\<open>s3.GetObjectInput\<close> (bucket,
  key) and \<^verbatim>\<open>s3.PutObjectInput\<close> (bucket, key, body, content length, server-side
  encryption).
\<close>

datatype request =
    HeadObjectInput string string
  | GetObjectInput string string
  | PutObjectInput string string bytes int string

text \<open>
  What the store does with one request: it serves it, it fails it with an error, or
  it answers and then fails while the body of the response is read, after the given
  number of bytes. Only the response to a get has a body that the storage reads; a
  head or a put is served in the last case.
\<close>

datatype fault = Succeed | Fail error | FailBody nat error

text \<open>
  Modelled from the spec: the object store behind \<^verbatim>\<open>s3iface.S3API\<close> is an external
  collaborator. Following sections 4.2 and 9 of the specification it is an in-memory
  store with head, get and put by bucket and key, which reports an absent key as a
  request failure with HTTP status 404. \<open>faults\<close> scripts the outcome of the coming
  requests, one entry for each (a served request when the script is empty), so that
  every failure the adapter can report is an input of the model; \<open>requests\<close> records
  the requests received, in order.
\<close>

record S3API =
  objects :: "(string \<times> string) \<rightharpoonup> bytes"
  faults :: "fault list"
  requests :: "request list"

definition next_fault :: "S3API \<Rightarrow> fault" where
  "next_fault a = (case faults a of [] \<Rightarrow> Succeed | f # _ \<Rightarrow> f)"

definition received :: "S3API \<Rightarrow> request \<Rightarrow> S3API" where
  "received a r = a\<lparr>faults := tl (faults a), requests := requests a @ [r]\<rparr>"

definition HeadObject :: "S3API \<Rightarrow> string \<Rightarrow> string \<Rightarrow> error option \<times> S3API" where
  "HeadObject a b k =
     (let a' = received a (HeadObjectInput b k) in
      case next_fault a of
        Fail e \<Rightarrow> (Some e, a')
      | _ \<Rightarrow> (case objects a (b, k) of
                None \<Rightarrow> (Some (RequestFailure 404 ''NotFound''), a')
              | Some v \<Rightarrow> (None, a')))"

definition GetObject :: "S3API \<Rightarrow> string \<Rightarrow> string \<Rightarrow> (error + body) \<times> S3API" where
  "GetObject a b k =
     (let a' = received a (GetObjectInput b k) in
      case next_fault a of
        Fail e \<Rightarrow> (Inl e, a')
      | Succeed \<Rightarrow> (case objects a (b, k) of
                None \<Rightarrow> (Inl (RequestFailure 404 ''NoSuchKey''), a')
              | Some v \<Rightarrow> (Inr (Body v None), a'))
      | FailBody n e \<Rightarrow> (case objects a (b, k) of
                None \<Rightarrow> (Inl (RequestFailure 404 ''NoSuchKey''), a')
              | Some v \<Rightarrow> (Inr (Body (take n v) (Some e)), a')))"

definition PutObject ::
  "S3API \<Rightarrow> string \<Rightarrow> string \<Rightarrow> bytes \<Rightarrow> int \<Rightarrow> string \<Rightarrow> error option \<times> S3API" where
  "PutObject a b k v len sse =
     (let a' = received a (PutObjectInput b k v len sse) in
      case next_fault a of
        Fail e \<Rightarrow> (Some e, a')
      | _ \<Rightarrow> (None, a'\<lparr>objects := (objects a)((b, k) \<mapsto> v)\<rparr>))"

section \<open>Library functions\<close>

text \<open>
  The functions of the Go standard library that the storage calls are parameters of
  the model: the JSON encoder and decoder of the two record types
  (\<^verbatim>\<open>json.Marshal\<close>, \<^verbatim>\<open>json.NewDecoder(body).Decode\<close>) and the Unicode part of
  \<^verbatim>\<open>strings.ToLower\<close>. What the decoder is known to do is added to a library by
  \<open>encoding_json\<close> below.
\<close>

record library =
  unicode_ToLower :: "string \<Rightarrow> string"
  Marshal_SiteData :: "SiteData option \<Rightarrow> error + bytes"
  Decode_SiteData :: "body \<Rightarrow> error + SiteData option"
  Marshal_UserData :: "UserData option \<Rightarrow> error + bytes"
  Decode_UserData :: "body \<Rightarrow> error + UserData option"

text \<open>
  \<^verbatim>\<open>strings.ToLower\<close>: a string of ASCII bytes only has its letters \<^verbatim>\<open>A\<close> to \<^verbatim>\<open>Z\<close>
  moved to \<^verbatim>\<open>a\<close> to \<^verbatim>\<open>z\<close>; any other string goes through the Unicode mapping.
\<close>

definition isASCII :: "string \<Rightarrow> bool" where
  "isASCII s = list_all (\<lambda>c. (of_char c :: nat) < 128) s"

definition lowerASCII :: "char \<Rightarrow> char" where
  "lowerASCII c =
     (if (65::nat) \<le> of_char c \<and> (of_char c :: nat) \<le> 90
      then char_of (of_char c + (32::nat)) else c)"

definition strings_ToLower :: "library \<Rightarrow> string \<Rightarrow> string" where
  "strings_ToLower L s = (if isASCII s then map lowerASCII s else unicode_ToLower L s)"

section \<open>The JSON decoder\<close>

text \<open>
  \<^verbatim>\<open>base64.StdEncoding\<close>, which \<^verbatim>\<open>encoding/json\<close> uses for byte slices: three bytes
  become four digits of the alphabet, and the last group is padded with \<^verbatim>\<open>=\<close>.
  \<open>base64_decode\<close> reads the canonical encodings only, those that \<open>base64_encode\<close>
  produces, and is \<open>None\<close> on every other string.
\<close>

definition base64_alphabet :: string where
  "base64_alphabet = ''ABCDEFGHIJKLMNOPQRSTUVWXYZabcdefghijklmnopqrstuvwxyz0123456789+/''"

definition base64_digit :: "nat \<Rightarrow> char" where
  "base64_digit n = base64_alphabet ! n"

fun base64_groups :: "nat list \<Rightarrow> string" where
  "base64_groups [] = []"
| "base64_groups [a] =
     [base64_digit (a div 4), base64_digit ((a mod 4) * 16), CHR ''='', CHR ''='']"
| "base64_groups [a, b] =
     [base64_digit (a div 4), base64_digit ((a mod 4) * 16 + b div 16),
      base64_digit ((b mod 16) * 4), CHR ''='']"
| "base64_groups (a # b # c # rest) =
     [base64_digit (a div 4), base64_digit ((a mod 4) * 16 + b div 16),
      base64_digit ((b mod 16) * 4 + c div 64), base64_digit (c mod 64)] @ base64_groups rest"

definition base64_encode :: "bytes \<Rightarrow> string" where
  "base64_encode b = base64_groups (map of_char b)"

definition base64_value :: "char \<Rightarrow> nat option" where
  "base64_value c = map_of (zip base64_alphabet [0..<64]) c"

fun base64_ungroup :: "string \<Rightarrow> nat list option" where
  "base64_ungroup [] = Some []"
| "base64_ungroup (c1 # c2 # c3 # c4 # rest) =
     (case (base64_value c1, base64_value c2) of
        (Some v1, Some v2) \<Rightarrow>
          (if rest = [] \<and> c3 = CHR ''='' \<and> c4 = CHR ''=''
           then (if v2 mod 16 = 0 then Some [v1 * 4 + v2 div 16] else None)
           else (case base64_value c3 of
                   None \<Rightarrow> None
                 | Some v3 \<Rightarrow>
                     (if rest = [] \<and> c4 = CHR ''=''
                      then (if v3 mod 4 = 0
                            then Some [v1 * 4 + v2 div 16, (v2 mod 16) * 16 + v3 div 4]
                            else None)
                      else (case (base64_value c4, base64_ungroup rest) of
                              (Some v4, Some bs) \<Rightarrow>
                                Some ([v1 * 4 + v2 div 16, (v2 mod 16) * 16 + v3 div 4,
                                       (v3 mod 4) * 64 + v4] @ bs)
                            | _ \<Rightarrow> None))))
      | _ \<Rightarrow> None)"
| "base64_ungroup _ = None"

definition base64_decode :: "string \<Rightarrow> bytes option" where
  "base64_decode t = map_option (map char_of) (base64_ungroup t)"

text \<open>
  \<^verbatim>\<open>json.NewDecoder(body).Decode(&data)\<close> reads the next JSON value from the body and
  stores it in \<^verbatim>\<open>data\<close>, a nil pointer to a record when the call is made. What it does
  is written out here for a fragment of the inputs and left to the library parameter
  for the rest (\<open>Other\<close>). The fragment is: JSON white space, the literal \<^verbatim>\<open>null\<close>, and
  objects whose keys and values are strings of printable ASCII characters without
  escapes, or \<^verbatim>\<open>null\<close> as a value. A syntax error is in the fragment when the offending
  byte is a printable ASCII character.

  \<open>scan\<close> follows the decoder's scanner, one state for each of its step functions that
  the fragment reaches, and collects the members of the object in the order of the
  input:
  \<^item> the value is complete as soon as the brace that closes the top-level object has
    been read, and nothing that follows is looked at;
  \<^item> a top-level \<^verbatim>\<open>null\<close> is complete when a byte of white space follows it
    (\<open>Null\<close>), or when the input ends there (\<open>NullAtEnd\<close>);
  \<^item> \<open>Invalid c place\<close> is the scanner's error for the byte \<open>c\<close>;
  \<^item> \<open>Short\<close> says that the input ended inside the value, or before it began.
\<close>

definition isSpace :: "char \<Rightarrow> bool" where
  "isSpace c = (c = CHR '' '' \<or> c = CHR 0x09 \<or> c = CHR 0x0D \<or> c = CHR 0x0A)"

definition printable :: "char \<Rightarrow> bool" where
  "printable c = ((32::nat) \<le> of_char c \<and> (of_char c :: nat) \<le> 126)"

datatype scanned =
    Object "(string \<times> string option) list"
  | Null
  | NullAtEnd
  | Invalid char string
  | Short
  | Other

definition invalid_character :: "char \<Rightarrow> string \<Rightarrow> scanned" where
  "invalid_character c place = (if printable c then Invalid c place else Other)"

text \<open>The bytes that begin a JSON value: a quote, a brace, a bracket, a number, a literal.\<close>

definition begins_value :: "char \<Rightarrow> bool" where
  "begins_value c = (c \<in> set (CHR 0x22 # ''{[-0123456789tfn''))"

text \<open>
  \<^verbatim>\<open>quoteChar\<close>, which formats the offending byte in the message of a syntax error, on
  printable ASCII characters: the character between single quotes, a single quote and
  a backslash escaped by a backslash.
\<close>

definition quoteChar :: "char \<Rightarrow> string" where
  "quoteChar c =
     (if c = CHR 0x27 then [CHR 0x27, CHR 0x5C, CHR 0x27, CHR 0x27]
      else if c = CHR 0x5C then [CHR 0x27, CHR 0x5C, CHR 0x5C, CHR 0x27]
      else [CHR 0x27, c, CHR 0x27])"

datatype state =
    BeginValue
  | TopLiteral string
  | BeginStringOrEmpty
  | BeginString
  | InKey string
  | EndKey string
  | MemberValue string
  | InString string string
  | MemberLiteral string string
  | EndMember

fun scan :: "state \<Rightarrow> (string \<times> string option) list \<Rightarrow> string \<Rightarrow> scanned" where
  "scan (TopLiteral []) ms [] = NullAtEnd"
| "scan st ms [] = Short"
| "scan BeginValue ms (c # t) =
     (if isSpace c then scan BeginValue ms t
      else if c = CHR ''{'' then scan BeginStringOrEmpty ms t
      else if c = CHR ''n'' then scan (TopLiteral ''ull'') ms t
      else if begins_value c then Other
      else invalid_character c ''looking for beginning of value'')"
| "scan (TopLiteral []) ms (c # t) = (if isSpace c then Null else Other)"
| "scan (TopLiteral (x # xs)) ms (c # t) =
     (if c = x then scan (TopLiteral xs) ms t
      else invalid_character c (''in literal null (expecting '' @ quoteChar x @ '')''))"
| "scan BeginStringOrEmpty ms (c # t) =
     (if isSpace c then scan BeginStringOrEmpty ms t
      else if c = CHR ''}'' then Object ms
      else if c = CHR 0x22 then scan (InKey []) ms t
      else invalid_character c ''looking for beginning of object key string'')"
| "scan BeginString ms (c # t) =
     (if isSpace c then scan BeginString ms t
      else if c = CHR 0x22 then scan (InKey []) ms t
      else invalid_character c ''looking for beginning of object key string'')"
| "scan (InKey k) ms (c # t) =
     (if c = CHR 0x22 then scan (EndKey k) ms t
      else if c = CHR 0x5C \<or> \<not> printable c then Other
      else scan (InKey (k @ [c])) ms t)"
| "scan (EndKey k) ms (c # t) =
     (if isSpace c then scan (EndKey k) ms t
      else if c = CHR '':'' then scan (MemberValue k) ms t
      else invalid_character c ''after object key'')"
| "scan (MemberValue k) ms (c # t) =
     (if isSpace c then scan (MemberValue k) ms t
      else if c = CHR 0x22 then scan (InString k []) ms t
      else if c = CHR ''n'' then scan (MemberLiteral k ''ull'') ms t
      else if begins_value c then Other
      else invalid_character c ''looking for beginning of value'')"
| "scan (InString k v) ms (c # t) =
     (if c = CHR 0x22 then scan EndMember (ms @ [(k, Some v)]) t
      else if c = CHR 0x5C \<or> \<not> printable c then Other
      else scan (InString k (v @ [c])) ms t)"
| "scan (MemberLiteral k []) ms (c # t) = Other"
| "scan (MemberLiteral k (x # xs)) ms (c # t) =
     (if c = x
      then (if xs = [] then scan EndMember (ms @ [(k, None)]) t
            else scan (MemberLiteral k xs) ms t)
      else invalid_character c (''in literal null (expecting '' @ quoteChar x @ '')''))"
| "scan EndMember ms (c # t) =
     (if isSpace c then scan EndMember ms t
      else if c = CHR '','' then scan BeginString ms t
      else if c = CHR ''}'' then Object ms
      else invalid_character c ''after object key:value pair'')"

text \<open>
  The errors of the decoder: \<^verbatim>\<open>io.EOF\<close>, \<^verbatim>\<open>io.ErrUnexpectedEOF\<close> and a
  \<^verbatim>\<open>json.SyntaxError\<close>, each the error with the message that Go prints for it.
\<close>

definition io_EOF :: error where
  "io_EOF = ErrorString ''EOF''"

definition io_ErrUnexpectedEOF :: error where
  "io_ErrUnexpectedEOF = ErrorString ''unexpected EOF''"

definition SyntaxError :: "char \<Rightarrow> string \<Rightarrow> error" where
  "SyntaxError c place = ErrorString (''invalid character '' @ quoteChar c @ '' '' @ place)"

text \<open>
  A member is stored in the field whose name is its key, or else in the field whose
  name is its key up to the case of the letters, and is skipped when there is none. A
  string is decoded from base64 into the field, \<^verbatim>\<open>null\<close> makes the field nil, and a later
  member for the same field replaces an earlier one. A string that is not canonical
  base64 leaves the fragment.
\<close>

definition field_named :: "string list \<Rightarrow> string \<Rightarrow> string option" where
  "field_named names key =
     (case find (\<lambda>f. f = key) names of
        Some f \<Rightarrow> Some f
      | None \<Rightarrow> find (\<lambda>f. map lowerASCII f = map lowerASCII key) names)"

definition field_value :: "string option \<Rightarrow> bytes option option" where
  "field_value v = (case v of None \<Rightarrow> Some None | Some t \<Rightarrow> map_option Some (base64_decode t))"

fun object_SiteData :: "(string \<times> string option) list \<Rightarrow> SiteData \<Rightarrow> SiteData option" where
  "object_SiteData [] d = Some d"
| "object_SiteData ((k, v) # ms) d =
     (case field_named [''Cert'', ''Key'', ''Meta''] k of
        None \<Rightarrow> object_SiteData ms d
      | Some f \<Rightarrow>
          (case field_value v of
             None \<Rightarrow> None
           | Some b \<Rightarrow>
               object_SiteData ms
                 (if f = ''Cert'' then d\<lparr>Cert := b\<rparr>
                  else if f = ''Key'' then d\<lparr>SiteData.Key := b\<rparr>
                  else d\<lparr>Meta := b\<rparr>)))"

fun object_UserData :: "(string \<times> string option) list \<Rightarrow> UserData \<Rightarrow> UserData option" where
  "object_UserData [] d = Some d"
| "object_UserData ((k, v) # ms) d =
     (case field_named [''Reg'', ''Key''] k of
        None \<Rightarrow> object_UserData ms d
      | Some f \<Rightarrow>
          (case field_value v of
             None \<Rightarrow> None
           | Some b \<Rightarrow>
               object_UserData ms
                 (if f = ''Reg'' then d\<lparr>Reg := b\<rparr> else d\<lparr>UserData.Key := b\<rparr>)))"

text \<open>
  The call on a body, for a record whose members \<open>object\<close> stores: \<open>None\<close> outside the
  fragment. The bytes that the body delivers are scanned first; only when they end
  inside the value does the way the body ends matter: with a read error, which is
  returned, or with the end of the file, which is \<^verbatim>\<open>io.EOF\<close> when nothing but white
  space came and \<^verbatim>\<open>io.ErrUnexpectedEOF\<close> otherwise. An object gives a new record,
  \<^verbatim>\<open>null\<close> leaves the pointer nil, both without error.
\<close>

fun json_Decode ::
  "((string \<times> string option) list \<Rightarrow> 'a option) \<Rightarrow> body \<Rightarrow> (error + 'a option) option" where
  "json_Decode object (Body p r) =
     (case scan BeginValue [] p of
        Object ms \<Rightarrow> map_option (\<lambda>d. Inr (Some d)) (object ms)
      | Null \<Rightarrow> Some (Inr None)
      | NullAtEnd \<Rightarrow> (case r of None \<Rightarrow> Some (Inr None) | Some e \<Rightarrow> Some (Inl e))
      | Invalid c place \<Rightarrow> Some (Inl (SyntaxError c place))
      | Short \<Rightarrow>
          (case r of
             Some e \<Rightarrow> Some (Inl e)
           | None \<Rightarrow> Some (Inl (if list_all isSpace p then io_EOF else io_ErrUnexpectedEOF)))
      | Other \<Rightarrow> None)"

definition json_Decode_SiteData :: "body \<Rightarrow> (error + SiteData option) option" where
  "json_Decode_SiteData =
     json_Decode (\<lambda>ms. object_SiteData ms \<lparr>Cert = None, Key = None, Meta = None\<rparr>)"

definition json_Decode_UserData :: "body \<Rightarrow> (error + UserData option) option" where
  "json_Decode_UserData = json_Decode (\<lambda>ms. object_UserData ms \<lparr>Reg = None, Key = None\<rparr>)"

text \<open>
  A library whose decoders are those of \<^verbatim>\<open>encoding/json\<close> on the fragment, and those of
  the given library outside it.
\<close>

definition encoding_json :: "library \<Rightarrow> library" where
  "encoding_json L =
     L\<lparr>Decode_SiteData :=
         (\<lambda>b. case json_Decode_SiteData b of Some r \<Rightarrow> r | None \<Rightarrow> Decode_SiteData L b),
       Decode_UserData :=
         (\<lambda>b. case json_Decode_UserData b of Some r \<Rightarrow> r | None \<Rightarrow> Decode_UserData L b)\<rparr>"

section \<open>The storage\<close>

text \<open>
  The struct \<^verbatim>\<open>S3Storage\<close>. The mutex \<^verbatim>\<open>nameLocksMu\<close> is held for the whole of
  \<^verbatim>\<open>TryLock\<close> and of \<^verbatim>\<open>Unlock\<close>, so each of them is one atomic step on the state.
  \<open>nameLocks\<close> maps a name to the address of its \<^verbatim>\<open>sync.WaitGroup\<close>; \<open>waitGroups\<close>
  is the part of the heap that holds the counters of the wait groups, and
  \<open>nextWaitGroup\<close> the next free address.
\<close>

record S3Storage =
  bucket :: string
  prefix :: string
  s3 :: S3API
  nameLocks :: "string \<rightharpoonup> nat"
  waitGroups :: "nat \<Rightarrow> int"
  nextWaitGroup :: nat

text \<open>
  \<^verbatim>\<open>NewS3Storage\<close>, from the value of \<^verbatim>\<open>CADDY_S3_BUCKET\<close>, the host of the CA URL and
  the client it connects (the discovery of the credentials is left out).
\<close>

definition NewS3Storage :: "string \<Rightarrow> string \<Rightarrow> S3API \<Rightarrow> error + S3Storage" where
  "NewS3Storage env_bucket host client =
     (if env_bucket = '''' then Inl (ErrorString ''CADDY_S3_BUCKET not set'')
      else Inr \<lparr>bucket = env_bucket, prefix = ''acme/'' @ host @ ''/'', s3 = client,
                nameLocks = Map.empty, waitGroups = (\<lambda>_. 0), nextWaitGroup = 0\<rparr>)"

definition domainKey :: "library \<Rightarrow> S3Storage \<Rightarrow> string \<Rightarrow> string" where
  "domainKey L s domain = prefix s @ ''domain/'' @ strings_ToLower L domain"

definition userKey :: "library \<Rightarrow> S3Storage \<Rightarrow> string \<Rightarrow> string" where
  "userKey L s email = prefix s @ ''user/'' @ strings_ToLower L email"

subsection \<open>Named locks\<close>

text \<open>
  \<^verbatim>\<open>new(sync.WaitGroup)\<close> allocates a wait group with counter 0. \<^verbatim>\<open>Add\<close> adds to the
  counter and panics when it becomes negative; \<^verbatim>\<open>Done\<close> is \<^verbatim>\<open>Add(-1)\<close>; \<^verbatim>\<open>Wait\<close> blocks
  as long as the counter is positive. The counter has 32 bits in Go; the storage only
  ever adds 1 to a new wait group and takes 1 off again, so it is an integer here.
\<close>

definition new_WaitGroup :: "S3Storage \<Rightarrow> nat \<times> S3Storage" where
  "new_WaitGroup s =
     (nextWaitGroup s,
      s\<lparr>waitGroups := (waitGroups s)(nextWaitGroup s := 0),
        nextWaitGroup := Suc (nextWaitGroup s)\<rparr>)"

definition WaitGroup_Add :: "S3Storage \<Rightarrow> nat \<Rightarrow> int \<Rightarrow> unit outcome \<times> S3Storage" where
  "WaitGroup_Add s wg delta =
     (let v = waitGroups s wg + delta;
          s' = s\<lparr>waitGroups := (waitGroups s)(wg := v)\<rparr>
      in if v < 0 then (Panic ''sync: negative WaitGroup counter'', s')
         else (Return (), s'))"

definition WaitGroup_Done :: "S3Storage \<Rightarrow> nat \<Rightarrow> unit outcome \<times> S3Storage" where
  "WaitGroup_Done s wg = WaitGroup_Add s wg (- 1)"

definition Wait_blocks :: "S3Storage \<Rightarrow> nat \<Rightarrow> bool" where
  "Wait_blocks s wg = (0 < waitGroups s wg)"

text \<open>The result of \<^verbatim>\<open>TryLock\<close> is the pair of the waiter (or nil) and the error (or nil).\<close>

definition TryLock ::
  "S3Storage \<Rightarrow> string \<Rightarrow> (nat option \<times> error option) outcome \<times> S3Storage" where
  "TryLock s name =
     (case nameLocks s name of
        Some wg \<Rightarrow> (Return (Some wg, None), s)
      | None \<Rightarrow>
          (let (wg, s1) = new_WaitGroup s in
           case WaitGroup_Add s1 wg 1 of
             (Panic m, s2) \<Rightarrow> (Panic m, s2)
           | (Return _, s2) \<Rightarrow>
               (Return (None, None), s2\<lparr>nameLocks := (nameLocks s2)(name \<mapsto> wg)\<rparr>)))"

definition Unlock :: "S3Storage \<Rightarrow> string \<Rightarrow> error option outcome \<times> S3Storage" where
  "Unlock s name =
     (case nameLocks s name of
        None \<Rightarrow> (Return (Some (ErrorString (''S3Storage: no lock to release for '' @ name))), s)
      | Some wg \<Rightarrow>
          (case WaitGroup_Done s wg of
             (Panic m, s1) \<Rightarrow> (Panic m, s1)
           | (Return _, s1) \<Rightarrow>
               (Return None, s1\<lparr>nameLocks := (nameLocks s1)(name := None)\<rparr>)))"

subsection \<open>Sites\<close>

text \<open>
  The test that \<^verbatim>\<open>SiteExists\<close>, \<^verbatim>\<open>LoadSite\<close> and \<^verbatim>\<open>LoadUser\<close> make on the error of the
  adapter: it is an \<^verbatim>\<open>awserr.RequestFailure\<close> whose status is \<^verbatim>\<open>http.StatusNotFound\<close>.
\<close>

fun is_not_found :: "error \<Rightarrow> bool" where
  "is_not_found (RequestFailure status code) = (status = 404)"
| "is_not_found _ = False"

definition SiteExists ::
  "library \<Rightarrow> S3Storage \<Rightarrow> string \<Rightarrow> (bool \<times> error option) \<times> S3Storage" where
  "SiteExists L s domain =
     (case HeadObject (s3 s) (bucket s) (domainKey L s domain) of
        (Some err, a) \<Rightarrow>
          (if is_not_found err then ((False, None), s\<lparr>s3 := a\<rparr>)
           else ((False, Some err), s\<lparr>s3 := a\<rparr>))
      | (None, a) \<Rightarrow> ((True, None), s\<lparr>s3 := a\<rparr>))"

definition LoadSite ::
  "library \<Rightarrow> S3Storage \<Rightarrow> string \<Rightarrow> (error + SiteData option) \<times> S3Storage" where
  "LoadSite L s domain =
     (case GetObject (s3 s) (bucket s) (domainKey L s domain) of
        (Inl err, a) \<Rightarrow>
          (if is_not_found err then (Inl (ErrNotExist err), s\<lparr>s3 := a\<rparr>)
           else (Inl err, s\<lparr>s3 := a\<rparr>))
      | (Inr res, a) \<Rightarrow>
          (case Decode_SiteData L res of
             Inl err \<Rightarrow> (Inl err, s\<lparr>s3 := a\<rparr>)
           | Inr data \<Rightarrow> (Inr data, s\<lparr>s3 := a\<rparr>)))"

definition StoreSite ::
  "library \<Rightarrow> S3Storage \<Rightarrow> string \<Rightarrow> SiteData option \<Rightarrow> error option \<times> S3Storage" where
  "StoreSite L s domain data =
     (case Marshal_SiteData L data of
        Inl err \<Rightarrow> (Some err, s)
      | Inr jsonData \<Rightarrow>
          (case PutObject (s3 s) (bucket s) (domainKey L s domain) jsonData
                  (int (length jsonData)) ''AES256'' of
             (err, a) \<Rightarrow> (err, s\<lparr>s3 := a\<rparr>)))"

subsection \<open>Users\<close>

definition LoadUser ::
  "library \<Rightarrow> S3Storage \<Rightarrow> string \<Rightarrow> (error + UserData option) \<times> S3Storage" where
  "LoadUser L s email =
     (case GetObject (s3 s) (bucket s) (userKey L s email) of
        (Inl err, a) \<Rightarrow>
          (if is_not_found err then (Inl (ErrNotExist err), s\<lparr>s3 := a\<rparr>)
           else (Inl err, s\<lparr>s3 := a\<rparr>))
      | (Inr res, a) \<Rightarrow>
          (case Decode_UserData L res of
             Inl err \<Rightarrow> (Inl err, s\<lparr>s3 := a\<rparr>)
           | Inr data \<Rightarrow> (Inr data, s\<lparr>s3 := a\<rparr>)))"

definition StoreUser ::
  "library \<Rightarrow> S3Storage \<Rightarrow> string \<Rightarrow> UserData option \<Rightarrow> error option \<times> S3Storage" where
  "StoreUser L s email data =
     (case Marshal_UserData L data of
        Inl err \<Rightarrow> (Some err, s)
      | Inr jsonData \<Rightarrow>
          (case PutObject (s3 s) (bucket s) (userKey L s email) jsonData
                  (int (length jsonData)) ''AES256'' of
             (Some err, a) \<Rightarrow> (Some err, s\<lparr>s3 := a\<rparr>)
           | (None, a) \<Rightarrow>
               (case PutObject a (bucket s) (userKey L s ''recent'') email
                       (int (length email)) ''AES256'' of
                  (err, a') \<Rightarrow> (err, s\<lparr>s3 := a'\<rparr>))))"

definition MostRecentUserEmail :: "library \<Rightarrow> S3Storage \<Rightarrow> string \<times> S3Storage" where
  "MostRecentUserEmail L s =
     (case GetObject (s3 s) (bucket s) (userKey L s ''recent'') of
        (Inl err, a) \<Rightarrow> ('''', s\<lparr>s3 := a\<rparr>)
      | (Inr res, a) \<Rightarrow>
          (case ioutil_ReadAll res of
             Inl err \<Rightarrow> ('''', s\<lparr>s3 := a\<rparr>)
           | Inr b \<Rightarrow> (b, s\<lparr>s3 := a\<rparr>)))"

section \<open>Runs and reachable states\<close>

text \<open>
  Callers reach the lock table only through \<^verbatim>\<open>TryLock\<close> and \<^verbatim>\<open>Unlock\<close>, each atomic
  under the mutex, so what concurrent callers do to it is a sequence of such calls.
  \<open>outstanding n calls s c\<close> runs the calls from the state \<open>s\<close> and counts the claims
  on the name \<open>n\<close> that are outstanding at the end, from \<open>c\<close> at the start: one more for
  each \<^verbatim>\<open>TryLock\<close> of \<open>n\<close> that returns no waiter, one less for each \<^verbatim>\<open>Unlock\<close> of \<open>n\<close> that
  returns no error. A panic ends the run.
\<close>

datatype lock_call = Call_TryLock string | Call_Unlock string

fun outstanding :: "string \<Rightarrow> lock_call list \<Rightarrow> S3Storage \<Rightarrow> int \<Rightarrow> int" where
  "outstanding n [] s c = c"
| "outstanding n (Call_TryLock m # cs) s c =
     (case TryLock s m of
        (Return (None, err), s') \<Rightarrow> outstanding n cs s' (if m = n then c + 1 else c)
      | (Return (Some waiter, err), s') \<Rightarrow> outstanding n cs s' c
      | (Panic msg, s') \<Rightarrow> c)"
| "outstanding n (Call_Unlock m # cs) s c =
     (case Unlock s m of
        (Return None, s') \<Rightarrow> outstanding n cs s' (if m = n then c - 1 else c)
      | (Return (Some err), s') \<Rightarrow> outstanding n cs s' c
      | (Panic msg, s') \<Rightarrow> c)"

text \<open>The claims on a name that a state holds: one when the table has an entry for it.\<close>

definition claimed :: "S3Storage \<Rightarrow> string \<Rightarrow> int" where
  "claimed s n = (if nameLocks s n = None then 0 else 1)"

text \<open>
  The states of a storage: the one \<^verbatim>\<open>NewS3Storage\<close> returns, and those its methods lead
  to; the object store may change behind the client at any moment.
\<close>

inductive reachable :: "S3Storage \<Rightarrow> bool" where
  new: "NewS3Storage env_bucket host client = Inr s \<Longrightarrow> reachable s"
| try_lock: "reachable s \<Longrightarrow> TryLock s name = (Return r, s') \<Longrightarrow> reachable s'"
| unlock: "reachable s \<Longrightarrow> Unlock s name = (Return e, s') \<Longrightarrow> reachable s'"
| site_exists: "reachable s \<Longrightarrow> reachable (snd (SiteExists L s domain))"
| load_site: "reachable s \<Longrightarrow> reachable (snd (LoadSite L s domain))"
| store_site: "reachable s \<Longrightarrow> reachable (snd (StoreSite L s domain site))"
| load_user: "reachable s \<Longrightarrow> reachable (snd (LoadUser L s email))"
| store_user: "reachable s \<Longrightarrow> reachable (snd (StoreUser L s email user))"
| most_recent: "reachable s \<Longrightarrow> reachable (snd (MostRecentUserEmail L s))"
| store_changes: "reachable s \<Longrightarrow> reachable (s\<lparr>s3 := a\<rparr>)"

text \<open>
  Every entry of the lock table points to an allocated wait group of its own, whose
  counter is 1.
\<close>

definition lock_inv :: "S3Storage \<Rightarrow> bool" where
  "lock_inv s =
     ((\<forall>n wg. nameLocks s n = Some wg \<longrightarrow> wg < nextWaitGroup s \<and> waitGroups s wg = 1) \<and>
      (\<forall>n m wg. nameLocks s n = Some wg \<longrightarrow> nameLocks s m = Some wg \<longrightarrow> n = m))"

section \<open>Examples\<close>

text \<open>
  The examples need a library. \<open>sample_library\<close> encodes the two records as
  \<^verbatim>\<open>json.Marshal\<close> does, an object with one member for each field in the order of the
  declaration, a byte slice as a string in base64 with padding and a nil slice or a nil
  pointer as \<^verbatim>\<open>null\<close>. Its decoders are those of \<open>encoding_json\<close>; outside the fragment
  they answer with the error \<open>unmodelled\<close>, which stands for nothing that Go does and
  which no example reaches. Its Unicode mapping is never reached on ASCII strings.
\<close>

definition quote :: char where
  "quote = CHR 0x22"

definition json_key :: "string \<Rightarrow> string" where
  "json_key k = [quote] @ k @ [quote] @ '':''"

definition json_bytes :: "bytes option \<Rightarrow> string" where
  "json_bytes b = (case b of None \<Rightarrow> ''null'' | Some v \<Rightarrow> [quote] @ base64_encode v @ [quote])"

definition sample_Marshal_SiteData :: "SiteData option \<Rightarrow> error + bytes" where
  "sample_Marshal_SiteData data =
     (case data of
        None \<Rightarrow> Inr ''null''
      | Some d \<Rightarrow>
          Inr (''{'' @ json_key ''Cert'' @ json_bytes (Cert d) @ '','' @
               json_key ''Key'' @ json_bytes (SiteData.Key d) @ '','' @
               json_key ''Meta'' @ json_bytes (Meta d) @ ''}''))"

definition sample_Marshal_UserData :: "UserData option \<Rightarrow> error + bytes" where
  "sample_Marshal_UserData data =
     (case data of
        None \<Rightarrow> Inr ''null''
      | Some d \<Rightarrow>
          Inr (''{'' @ json_key ''Reg'' @ json_bytes (Reg d) @ '','' @
               json_key ''Key'' @ json_bytes (UserData.Key d) @ ''}''))"

definition unmodelled :: error where
  "unmodelled = ErrorString ''outside the modelled fragment of encoding/json''"

definition sample_base :: library where
  "sample_base =
     \<lparr>unicode_ToLower = (\<lambda>s. s),
      Marshal_SiteData = sample_Marshal_SiteData,
      Decode_SiteData = (\<lambda>b. Inl unmodelled),
      Marshal_UserData = sample_Marshal_UserData,
      Decode_UserData = (\<lambda>b. Inl unmodelled)\<rparr>"

definition sample_library :: library where
  "sample_library = encoding_json sample_base"

text \<open>
  A storage as \<^verbatim>\<open>NewS3Storage\<close> returns it, over an empty bucket that serves every
  request; the same storage after a first \<^verbatim>\<open>TryLock\<close>, after \<^verbatim>\<open>StoreSite\<close> and after
  \<^verbatim>\<open>StoreUser\<close>; storages whose object store holds one given object or follows a given
  script of faults. The site and the user are those of the integration tests.
\<close>

definition example_client :: S3API where
  "example_client = \<lparr>objects = Map.empty, faults = [], requests = []\<rparr>"

definition example_storage :: S3Storage where
  "example_storage =
     \<lparr>bucket = ''bucket'', prefix = ''acme/ca.example/'', s3 = example_client,
      nameLocks = Map.empty, waitGroups = (\<lambda>_. 0), nextWaitGroup = 0\<rparr>"

definition example_locked :: S3Storage where
  "example_locked = snd (TryLock example_storage ''example.com'')"

definition example_site :: "SiteData option" where
  "example_site = Some \<lparr>Cert = Some ''cert'', Key = Some ''key'', Meta = Some ''meta''\<rparr>"

definition example_user :: "UserData option" where
  "example_user = Some \<lparr>Reg = Some ''reg'', Key = Some ''key''\<rparr>"

definition example_site_json :: string where
  \<open>example_site_json = ''{"Cert":"Y2VydA==","Key":"a2V5","Meta":"bWV0YQ=="}''\<close>

definition example_user_json :: string where
  \<open>example_user_json = ''{"Reg":"cmVn","Key":"a2V5"}''\<close>


definition example_stored :: S3Storage where
  "example_stored = snd (StoreSite sample_library example_storage ''Example.com'' example_site)"

definition example_recent :: S3Storage where
  "example_recent = snd (StoreUser sample_library example_storage ''recent'' example_user)"

definition example_holding :: "string \<Rightarrow> bytes \<Rightarrow> fault \<Rightarrow> S3Storage" where
  "example_holding k p f =
     example_storage\<lparr>s3 := \<lparr>objects = [(''bucket'', k) \<mapsto> p], faults = [f], requests = []\<rparr>\<rparr>"

definition example_faults :: "fault list \<Rightarrow> S3Storage" where
  "example_faults fs = example_storage\<lparr>s3 := example_client\<lparr>faults := fs\<rparr>\<rparr>"

section \<open>What the operations return\<close>

subsection \<open>The object store\<close>

lemma PutObject_result:
  "PutObject a b k v len sse =
     (case next_fault a of
        Fail e \<Rightarrow> (Some e, received a (PutObjectInput b k v len sse))
      | _ \<Rightarrow> (None, received a (PutObjectInput b k v len sse)
                  \<lparr>objects := (objects a)((b, k) \<mapsto> v)\<rparr>))"
  by (simp add: PutObject_def split: fault.splits)

lemma GetObject_result:
  "GetObject a b k =
     (case next_fault a of
        Fail e \<Rightarrow> Inl e
      | Succeed \<Rightarrow> (case objects a (b, k) of
                      None \<Rightarrow> Inl (RequestFailure 404 ''NoSuchKey'')
                    | Some v \<Rightarrow> Inr (Body v None))
      | FailBody n e \<Rightarrow> (case objects a (b, k) of
                      None \<Rightarrow> Inl (RequestFailure 404 ''NoSuchKey'')
                    | Some v \<Rightarrow> Inr (Body (take n v) (Some e))),
      received a (GetObjectInput b k))"
  by (simp add: GetObject_def Let_def split: fault.splits option.splits)

lemma HeadObject_result:
  "HeadObject a b k =
     (case next_fault a of
        Fail e \<Rightarrow> Some e
      | _ \<Rightarrow> (case objects a (b, k) of
                None \<Rightarrow> Some (RequestFailure 404 ''NotFound'')
              | Some v \<Rightarrow> None),
      received a (HeadObjectInput b k))"
  by (simp add: HeadObject_def Let_def split: fault.splits option.splits)

subsection \<open>Keys\<close>

lemma domainKey_s3 [simp]: "domainKey L (s\<lparr>s3 := a\<rparr>) domain = domainKey L s domain"
  by (simp add: domainKey_def)

lemma userKey_s3 [simp]: "userKey L (s\<lparr>s3 := a\<rparr>) email = userKey L s email"
  by (simp add: userKey_def)

lemma ToLower_recent: "strings_ToLower L ''recent'' = ''recent''"
  by (simp add: strings_ToLower_def isASCII_def lowerASCII_def)

lemma userKey_eq_iff:
  "userKey L s a = userKey L s b \<longleftrightarrow> strings_ToLower L a = strings_ToLower L b"
  by (simp add: userKey_def)

lemma domainKey_eq_iff:
  "domainKey L s a = domainKey L s b \<longleftrightarrow> strings_ToLower L a = strings_ToLower L b"
  by (simp add: domainKey_def)

subsection \<open>Sites and users\<close>

lemma StoreSite_success:
  assumes "StoreSite L s domain data = (None, s1)"
  obtains j where "Marshal_SiteData L data = Inr j"
    and "s1 = s\<lparr>s3 := received (s3 s)
                  (PutObjectInput (bucket s) (domainKey L s domain) j (int (length j)) ''AES256'')
                \<lparr>objects := (objects (s3 s))((bucket s, domainKey L s domain) \<mapsto> j)\<rparr>\<rparr>"
proof (cases "Marshal_SiteData L data")
  case (Inl e)
  with assms show ?thesis by (simp add: StoreSite_def)
next
  case (Inr j)
  with assms have
    "s1 = s\<lparr>s3 := received (s3 s)
                  (PutObjectInput (bucket s) (domainKey L s domain) j (int (length j)) ''AES256'')
                \<lparr>objects := (objects (s3 s))((bucket s, domainKey L s domain) \<mapsto> j)\<rparr>\<rparr>"
    by (auto simp: StoreSite_def PutObject_result split: fault.splits)
  with Inr that show ?thesis by blast
qed

lemma LoadSite_served:
  assumes "next_fault (s3 s) = Succeed"
    and "objects (s3 s) (bucket s, domainKey L s domain) = Some p"
  shows "LoadSite L s domain =
           (Decode_SiteData L (Body p None),
            s\<lparr>s3 := received (s3 s) (GetObjectInput (bucket s) (domainKey L s domain))\<rparr>)"
  using assms by (simp add: LoadSite_def GetObject_def split: sum.splits)

lemma LoadUser_served:
  assumes "next_fault (s3 s) = Succeed"
    and "objects (s3 s) (bucket s, userKey L s email) = Some p"
  shows "LoadUser L s email =
           (Decode_UserData L (Body p None),
            s\<lparr>s3 := received (s3 s) (GetObjectInput (bucket s) (userKey L s email))\<rparr>)"
  using assms by (simp add: LoadUser_def GetObject_def split: sum.splits)

lemma SiteExists_served:
  assumes "\<And>e. next_fault (s3 s) \<noteq> Fail e"
    and "objects (s3 s) (bucket s, domainKey L s domain) = Some p"
  shows "SiteExists L s domain =
           ((True, None),
            s\<lparr>s3 := received (s3 s) (HeadObjectInput (bucket s) (domainKey L s domain))\<rparr>)"
  using assms by (cases "next_fault (s3 s)") (auto simp: SiteExists_def HeadObject_def)

lemma GetObject_absent:
  assumes "\<And>e. next_fault (s3 s) \<noteq> Fail e"
    and "objects (s3 s) (bucket s, k) = None"
  shows "fst (GetObject (s3 s) (bucket s) k) = Inl (RequestFailure 404 ''NoSuchKey'')"
  using assms by (cases "next_fault (s3 s)") (auto simp: GetObject_result)

lemma LoadSite_absent:
  assumes "\<And>e. next_fault (s3 s) \<noteq> Fail e"
    and "objects (s3 s) (bucket s, domainKey L s domain) = None"
  shows "fst (LoadSite L s domain) = Inl (RequestFailure 404 ''NoSuchKey'')"
  using assms
  by (cases "next_fault (s3 s)") (auto simp: LoadSite_def GetObject_result ErrNotExist_def)

lemma LoadUser_absent:
  assumes "\<And>e. next_fault (s3 s) \<noteq> Fail e"
    and "objects (s3 s) (bucket s, userKey L s email) = None"
  shows "fst (LoadUser L s email) = Inl (RequestFailure 404 ''NoSuchKey'')"
  using assms
  by (cases "next_fault (s3 s)") (auto simp: LoadUser_def GetObject_result ErrNotExist_def)

lemma SiteExists_absent:
  assumes "\<And>e. next_fault (s3 s) \<noteq> Fail e"
    and "objects (s3 s) (bucket s, domainKey L s domain) = None"
  shows "fst (SiteExists L s domain) = (False, None)"
  using assms by (cases "next_fault (s3 s)") (auto simp: SiteExists_def HeadObject_result)

lemma LoadSite_failed:
  assumes "next_fault (s3 s) = Fail e"
  shows "fst (LoadSite L s domain) = Inl e"
  using assms by (simp add: LoadSite_def GetObject_result ErrNotExist_def)

lemma LoadUser_failed:
  assumes "next_fault (s3 s) = Fail e"
  shows "fst (LoadUser L s email) = Inl e"
  using assms by (simp add: LoadUser_def GetObject_result ErrNotExist_def)

lemma SiteExists_failed:
  assumes "next_fault (s3 s) = Fail e"
  shows "fst (SiteExists L s domain) = (False, if is_not_found e then None else Some e)"
  using assms by (simp add: SiteExists_def HeadObject_result)

lemma StoreUser_result:
  assumes "Marshal_UserData L data = Inr j"
  shows "StoreUser L s email data =
    (case next_fault (s3 s) of
       Fail e \<Rightarrow>
         (Some e,
          s\<lparr>s3 := (s3 s)\<lparr>faults := tl (faults (s3 s)),
                   requests := requests (s3 s) @
                     [PutObjectInput (bucket s) (userKey L s email) j (int (length j)) ''AES256'']\<rparr>\<rparr>)
     | _ \<Rightarrow>
         (case next_fault ((s3 s)\<lparr>faults := tl (faults (s3 s))\<rparr>) of
            Fail e \<Rightarrow>
              (Some e,
               s\<lparr>s3 := (s3 s)\<lparr>objects := (objects (s3 s))((bucket s, userKey L s email) \<mapsto> j),
                        faults := tl (tl (faults (s3 s))),
                        requests := requests (s3 s) @
                          [PutObjectInput (bucket s) (userKey L s email) j (int (length j)) ''AES256'',
                           PutObjectInput (bucket s) (userKey L s ''recent'') email
                             (int (length email)) ''AES256'']\<rparr>\<rparr>)
          | _ \<Rightarrow>
              (None,
               s\<lparr>s3 := (s3 s)\<lparr>objects := (objects (s3 s))
                          ((bucket s, userKey L s email) \<mapsto> j,
                           (bucket s, userKey L s ''recent'') \<mapsto> email),
                        faults := tl (tl (faults (s3 s))),
                        requests := requests (s3 s) @
                          [PutObjectInput (bucket s) (userKey L s email) j (int (length j)) ''AES256'',
                           PutObjectInput (bucket s) (userKey L s ''recent'') email
                             (int (length email)) ''AES256'']\<rparr>\<rparr>)))"
proof -
  have second: "next_fault (received (s3 s) r\<lparr>objects := m\<rparr>) =
                next_fault ((s3 s)\<lparr>faults := tl (faults (s3 s))\<rparr>)" for r m
    by (simp add: next_fault_def received_def)
  show ?thesis
    using assms
    by (cases "next_fault (s3 s)"; cases "next_fault ((s3 s)\<lparr>faults := tl (faults (s3 s))\<rparr>)")
       (simp_all add: StoreUser_def PutObject_result second, simp_all add: received_def)
qed

lemma StoreUser_success:
  assumes "StoreUser L s email data = (None, s1)"
  obtains j where "Marshal_UserData L data = Inr j"
    and "s1 = s\<lparr>s3 := (s3 s)\<lparr>objects := (objects (s3 s))
                          ((bucket s, userKey L s email) \<mapsto> j,
                           (bucket s, userKey L s ''recent'') \<mapsto> email),
                        faults := tl (tl (faults (s3 s))),
                        requests := requests (s3 s) @
                          [PutObjectInput (bucket s) (userKey L s email) j (int (length j)) ''AES256'',
                           PutObjectInput (bucket s) (userKey L s ''recent'') email
                             (int (length email)) ''AES256'']\<rparr>\<rparr>"
proof (cases "Marshal_UserData L data")
  case (Inl e)
  with assms show ?thesis by (simp add: StoreUser_def)
next
  case (Inr j)
  from assms have
    "s1 = s\<lparr>s3 := (s3 s)\<lparr>objects := (objects (s3 s))
                          ((bucket s, userKey L s email) \<mapsto> j,
                           (bucket s, userKey L s ''recent'') \<mapsto> email),
                        faults := tl (tl (faults (s3 s))),
                        requests := requests (s3 s) @
                          [PutObjectInput (bucket s) (userKey L s email) j (int (length j)) ''AES256'',
                           PutObjectInput (bucket s) (userKey L s ''recent'') email
                             (int (length email)) ''AES256'']\<rparr>\<rparr>"
    unfolding StoreUser_result [OF Inr]
    by (auto split: fault.splits)
  with Inr that show ?thesis by blast
qed

lemma MostRecentUserEmail_served:
  assumes "next_fault (s3 s) = Succeed"
    and "objects (s3 s) (bucket s, userKey L s ''recent'') = Some v"
  shows "fst (MostRecentUserEmail L s) = v"
  using assms by (simp add: MostRecentUserEmail_def GetObject_result)

subsection \<open>The JSON decoder\<close>







subsection \<open>Locks\<close>

lemma TryLock_unclaimed:
  "nameLocks s name = None \<Longrightarrow>
   TryLock s name =
     (Return (None, None),
      s\<lparr>waitGroups := (waitGroups s)(nextWaitGroup s := 1),
        nextWaitGroup := Suc (nextWaitGroup s),
        nameLocks := (nameLocks s)(name \<mapsto> nextWaitGroup s)\<rparr>)"
  by (simp add: TryLock_def new_WaitGroup_def WaitGroup_Add_def)

lemma TryLock_claimed:
  "nameLocks s name = Some wg \<Longrightarrow> TryLock s name = (Return (Some wg, None), s)"
  by (simp add: TryLock_def)

lemma Unlock_unclaimed:
  "nameLocks s name = None \<Longrightarrow>
   Unlock s name =
     (Return (Some (ErrorString (''S3Storage: no lock to release for '' @ name))), s)"
  by (simp add: Unlock_def)

lemma Unlock_claimed:
  "nameLocks s name = Some wg \<Longrightarrow>
   Unlock s name =
     (if waitGroups s wg - 1 < 0
      then (Panic ''sync: negative WaitGroup counter'',
            s\<lparr>waitGroups := (waitGroups s)(wg := waitGroups s wg - 1)\<rparr>)
      else (Return None,
            s\<lparr>waitGroups := (waitGroups s)(wg := waitGroups s wg - 1),
              nameLocks := (nameLocks s)(name := None)\<rparr>))"
  by (simp add: Unlock_def WaitGroup_Done_def WaitGroup_Add_def)

lemma outstanding_claimed:
  "outstanding n cs s (claimed s n) = 0 \<or> outstanding n cs s (claimed s n) = 1"
proof (induction cs arbitrary: s)
  case Nil
  show ?case by (simp add: claimed_def)
next
  case (Cons c cs)
  show ?case
  proof (cases c)
    case (Call_TryLock m)
    show ?thesis
    proof (cases "nameLocks s m")
      case None
      let ?s' = "s\<lparr>waitGroups := (waitGroups s)(nextWaitGroup s := 1),
        nextWaitGroup := Suc (nextWaitGroup s),
        nameLocks := (nameLocks s)(m \<mapsto> nextWaitGroup s)\<rparr>"
      have "(if m = n then claimed s n + 1 else claimed s n) = claimed ?s' n"
        using None by (auto simp: claimed_def)
      then show ?thesis
        using Cons.IH [of ?s'] Call_TryLock None by (simp add: TryLock_unclaimed)
    next
      case (Some wg)
      then show ?thesis
        using Cons.IH [of s] Call_TryLock by (simp add: TryLock_claimed)
    qed
  next
    case (Call_Unlock m)
    show ?thesis
    proof (cases "nameLocks s m")
      case None
      then show ?thesis
        using Cons.IH [of s] Call_Unlock by (simp add: Unlock_unclaimed)
    next
      case (Some wg)
      let ?s' = "s\<lparr>waitGroups := (waitGroups s)(wg := waitGroups s wg - 1),
              nameLocks := (nameLocks s)(m := None)\<rparr>"
      have "(if m = n then claimed s n - 1 else claimed s n) = claimed ?s' n"
        using Some by (auto simp: claimed_def)
      then show ?thesis
        using Cons.IH [of ?s'] Call_Unlock Some
        by (auto simp: Unlock_claimed claimed_def)
    qed
  qed
qed

section \<open>Reachable states\<close>

lemma lock_inv_s3 [simp]: "lock_inv (s\<lparr>s3 := a\<rparr>) = lock_inv s"
  by (simp add: lock_inv_def)

lemma SiteExists_s3: "\<exists>a. snd (SiteExists L s domain) = s\<lparr>s3 := a\<rparr>"
  by (auto simp: SiteExists_def split: prod.splits option.splits)

lemma LoadSite_s3: "\<exists>a. snd (LoadSite L s domain) = s\<lparr>s3 := a\<rparr>"
  by (auto simp: LoadSite_def split: prod.splits sum.splits)

lemma StoreSite_s3: "\<exists>a. snd (StoreSite L s domain site) = s\<lparr>s3 := a\<rparr>"
proof (cases "Marshal_SiteData L site")
  case (Inl e)
  then have "snd (StoreSite L s domain site) = s\<lparr>s3 := s3 s\<rparr>"
    by (simp add: StoreSite_def)
  then show ?thesis by blast
next
  case (Inr j)
  then show ?thesis by (auto simp: StoreSite_def split: prod.splits)
qed

lemma LoadUser_s3: "\<exists>a. snd (LoadUser L s email) = s\<lparr>s3 := a\<rparr>"
  by (auto simp: LoadUser_def split: prod.splits sum.splits)

lemma StoreUser_s3: "\<exists>a. snd (StoreUser L s email user) = s\<lparr>s3 := a\<rparr>"
proof (cases "Marshal_UserData L user")
  case (Inl e)
  then have "snd (StoreUser L s email user) = s\<lparr>s3 := s3 s\<rparr>"
    by (simp add: StoreUser_def)
  then show ?thesis by blast
next
  case (Inr j)
  then show ?thesis by (auto simp: StoreUser_def split: prod.splits option.splits)
qed

lemma MostRecentUserEmail_s3: "\<exists>a. snd (MostRecentUserEmail L s) = s\<lparr>s3 := a\<rparr>"
  by (auto simp: MostRecentUserEmail_def split: prod.splits sum.splits)

lemma lock_inv_new: "NewS3Storage env_bucket host client = Inr s \<Longrightarrow> lock_inv s"
  by (auto simp: NewS3Storage_def lock_inv_def split: if_splits)

lemma lock_inv_TryLock:
  assumes "lock_inv s" and "TryLock s name = (Return r, s')"
  shows "lock_inv s'"
proof (cases "nameLocks s name")
  case None
  have fresh: "\<And>n wg. nameLocks s n = Some wg \<Longrightarrow> wg < nextWaitGroup s \<and> waitGroups s wg = 1"
    using assms(1) by (simp add: lock_inv_def)
  have inj: "\<And>n m wg. nameLocks s n = Some wg \<Longrightarrow> nameLocks s m = Some wg \<Longrightarrow> n = m"
    using assms(1) unfolding lock_inv_def by blast
  have s': "s' = s\<lparr>waitGroups := (waitGroups s)(nextWaitGroup s := 1),
        nextWaitGroup := Suc (nextWaitGroup s),
        nameLocks := (nameLocks s)(name \<mapsto> nextWaitGroup s)\<rparr>"
    using assms(2) None by (simp add: TryLock_unclaimed)
  show ?thesis
    unfolding lock_inv_def s' using fresh inj
    by (auto simp: less_Suc_eq split: if_splits)
next
  case (Some wg)
  then show ?thesis using assms by (simp add: TryLock_claimed)
qed

lemma lock_inv_Unlock:
  assumes "lock_inv s" and "Unlock s name = (Return e, s')"
  shows "lock_inv s'"
proof (cases "nameLocks s name")
  case None
  then show ?thesis using assms by (simp add: Unlock_unclaimed)
next
  case (Some wg)
  have fresh: "\<And>n wg. nameLocks s n = Some wg \<Longrightarrow> wg < nextWaitGroup s \<and> waitGroups s wg = 1"
    using assms(1) by (simp add: lock_inv_def)
  have inj: "\<And>n m wg. nameLocks s n = Some wg \<Longrightarrow> nameLocks s m = Some wg \<Longrightarrow> n = m"
    using assms(1) unfolding lock_inv_def by blast
  have s': "s' = s\<lparr>waitGroups := (waitGroups s)(wg := waitGroups s wg - 1),
              nameLocks := (nameLocks s)(name := None)\<rparr>"
    using assms(2) Some by (simp add: Unlock_claimed split: if_splits)
  show ?thesis
    unfolding lock_inv_def s' using fresh inj Some
    by (auto split: if_splits)
qed

lemma reachable_lock_inv: "reachable s \<Longrightarrow> lock_inv s"
proof (induction rule: reachable.induct)
  case (new env_bucket host client s)
  then show ?case by (rule lock_inv_new)
next
  case (try_lock s name r s')
  then show ?case by (blast intro: lock_inv_TryLock)
next
  case (unlock s name e s')
  then show ?case by (blast intro: lock_inv_Unlock)
next
  case (site_exists s L domain)
  then show ?case using SiteExists_s3 [of L s domain] by auto
next
  case (load_site s L domain)
  then show ?case using LoadSite_s3 [of L s domain] by auto
next
  case (store_site s L domain site)
  then show ?case using StoreSite_s3 [of L s domain site] by auto
next
  case (load_user s L email)
  then show ?case using LoadUser_s3 [of L s email] by auto
next
  case (store_user s L email user)
  then show ?case using StoreUser_s3 [of L s email user] by auto
next
  case (most_recent s L)
  then show ?case using MostRecentUserEmail_s3 [of L s] by auto
next
  case (store_changes s a)
  then show ?case by simp
qed

lemma TryLock_prefix: "TryLock s name = (r, s') \<Longrightarrow> prefix s' = prefix s"
  by (cases "nameLocks s name") (auto simp: TryLock_unclaimed TryLock_claimed)

lemma Unlock_prefix: "Unlock s name = (r, s') \<Longrightarrow> prefix s' = prefix s"
  by (cases "nameLocks s name") (auto simp: Unlock_unclaimed Unlock_claimed split: if_splits)

lemma reachable_prefix: "reachable s \<Longrightarrow> \<exists>host. prefix s = ''acme/'' @ host @ ''/''"
proof (induction rule: reachable.induct)
  case (new env_bucket host client s)
  then show ?case by (auto simp: NewS3Storage_def split: if_splits)
next
  case (try_lock s name r s')
  then show ?case by (simp add: TryLock_prefix)
next
  case (unlock s name e s')
  then show ?case by (simp add: Unlock_prefix)
next
  case (site_exists s L domain)
  then show ?case using SiteExists_s3 [of L s domain] by auto
next
  case (load_site s L domain)
  then show ?case using LoadSite_s3 [of L s domain] by auto
next
  case (store_site s L domain site)
  then show ?case using StoreSite_s3 [of L s domain site] by auto
next
  case (load_user s L email)
  then show ?case using LoadUser_s3 [of L s email] by auto
next
  case (store_user s L email user)
  then show ?case using StoreUser_s3 [of L s email user] by auto
next
  case (most_recent s L)
  then show ?case using MostRecentUserEmail_s3 [of L s] by auto
next
  case (store_changes s a)
  then show ?case by simp
qed

section \<open>The examples, evaluated\<close>

lemma sample_Marshal_site: "Marshal_SiteData sample_library example_site = Inr example_site_json"
  by code_simp

lemma sample_Decode_site:
  "Decode_SiteData sample_library (Body example_site_json None) = Inr example_site"
  by code_simp

lemma sample_Marshal_user: "Marshal_UserData sample_library example_user = Inr example_user_json"
  by code_simp

lemma sample_Decode_user:
  "Decode_UserData sample_library (Body example_user_json None) = Inr example_user"
  by code_simp

lemma sample_Decode_recent:
  "Decode_UserData sample_library (Body ''recent'' None) =
     Inl (SyntaxError CHR ''r'' ''looking for beginning of value'')"
  "Decode_SiteData sample_library (Body ''recent'' None) =
     Inl (SyntaxError CHR ''r'' ''looking for beginning of value'')"
  by code_simp+

lemma example_domain_lower: "strings_ToLower L ''Example.com'' = ''example.com''"
  by code_simp

lemma example_email_lower: "strings_ToLower L ''Someone@example.com'' = ''someone@example.com''"
  by code_simp

lemma example_storage_new:
  "NewS3Storage ''bucket'' ''ca.example'' example_client = Inr example_storage"
  by (simp add: NewS3Storage_def example_storage_def)

lemma example_storage_reachable: "reachable example_storage"
  using example_storage_new by (rule reachable.new)

lemma example_storage_unclaimed: "nameLocks example_storage n = None"
  by (simp add: example_storage_def)

lemma example_locked_eq:
  "TryLock example_storage ''example.com'' = (Return (None, None), example_locked)"
  by (simp add: example_locked_def TryLock_unclaimed example_storage_unclaimed)

lemma example_locked_reachable: "reachable example_locked"
  using example_storage_reachable example_locked_eq by (rule reachable.try_lock)

lemma example_locked_claimed: "nameLocks example_locked ''example.com'' = Some 0"
  by (simp add: example_locked_def TryLock_unclaimed example_storage_unclaimed)
     (simp add: example_storage_def)

lemma example_keys:
  "domainKey L example_storage ''Example.com'' = ''acme/ca.example/domain/example.com''"
  "domainKey L example_storage ''example.com'' = ''acme/ca.example/domain/example.com''"
  "userKey L example_storage ''Someone@example.com'' = ''acme/ca.example/user/someone@example.com''"
  "userKey L example_storage ''recent'' = ''acme/ca.example/user/recent''"
  by (simp_all add: domainKey_def userKey_def example_domain_lower example_email_lower
        ToLower_recent example_storage_def)
     (simp_all add: strings_ToLower_def isASCII_def lowerASCII_def)

lemma example_client_served: "next_fault example_client = Succeed"
  by (simp add: next_fault_def example_client_def)

lemma example_stored_eq:
  "StoreSite sample_library example_storage ''Example.com'' example_site = (None, example_stored)"
  "example_stored =
     example_storage\<lparr>s3 :=
       \<lparr>objects = [(''bucket'', ''acme/ca.example/domain/example.com'') \<mapsto> example_site_json],
        faults = [],
        requests = [PutObjectInput ''bucket'' ''acme/ca.example/domain/example.com''
                      example_site_json (int (length example_site_json)) ''AES256'']\<rparr>\<rparr>"
  by (simp_all add: example_stored_def StoreSite_def sample_Marshal_site PutObject_result
        example_keys)
     (simp_all add: example_storage_def example_client_def next_fault_def received_def)

lemma example_stored_served: "faults (s3 example_stored) = []"
  by (simp add: example_stored_eq(2))

lemma example_recent_eq:
  "StoreUser sample_library example_storage ''recent'' example_user = (None, example_recent)"
  "faults (s3 example_recent) = []"
  "objects (s3 example_recent)
     (bucket example_recent, userKey sample_library example_recent ''recent'') = Some ''recent''"
  "requests (s3 example_recent) =
     [PutObjectInput ''bucket'' ''acme/ca.example/user/recent'' example_user_json
        (int (length example_user_json)) ''AES256'',
      PutObjectInput ''bucket'' ''acme/ca.example/user/recent'' ''recent'' 6 ''AES256'']"
  "objects (s3 example_recent) (''bucket'', ''acme/ca.example/user/recent'') = Some ''recent''"
  by (simp_all add: example_recent_def StoreUser_result [OF sample_Marshal_user])
     (simp_all add: example_storage_def example_client_def next_fault_def userKey_def
        ToLower_recent)

lemma example_faults_next:
  "next_fault (s3 (example_faults (f # fs))) = f"
  "next_fault ((s3 (example_faults (f # g # fs)))\<lparr>faults := tl (faults (s3 (example_faults (f # g # fs))))\<rparr>) = g"
  by (simp_all add: example_faults_def next_fault_def)

lemma example_faults_fields:
  "bucket (example_faults fs) = ''bucket''"
  "requests (s3 (example_faults fs)) = []"
  "objects (s3 (example_faults fs)) = Map.empty"
  "userKey L (example_faults fs) ''Someone@example.com'' = ''acme/ca.example/user/someone@example.com''"
  "userKey L (example_faults fs) ''recent'' = ''acme/ca.example/user/recent''"
  "domainKey L (example_faults fs) ''example.com'' = ''acme/ca.example/domain/example.com''"
  by (simp_all add: example_faults_def example_keys)
     (simp_all add: example_storage_def example_client_def)

lemma example_holding_fields:
  "next_fault (s3 (example_holding k p f)) = f"
  "bucket (example_holding k p f) = ''bucket''"
  "objects (s3 (example_holding k p f)) (''bucket'', k) = Some p"
  "userKey L (example_holding k p f) ''Someone@example.com'' = ''acme/ca.example/user/someone@example.com''"
  "userKey L (example_holding k p f) ''recent'' = ''acme/ca.example/user/recent''"
  "domainKey L (example_holding k p f) ''example.com'' = ''acme/ca.example/domain/example.com''"
  by (simp_all add: example_holding_def example_keys next_fault_def)
     (simp_all add: example_storage_def)

section \<open>Properties of the storage\<close>

text \<open>
  C1. After \<^verbatim>\<open>StoreSite\<close> of a record for a domain has returned no error, and as long
  as the object store serves the next request, \<^verbatim>\<open>LoadSite\<close> of the domain returns the
  record and \<^verbatim>\<open>SiteExists\<close> returns true with no error, also when it follows the load.
  The JSON library is a parameter: the record is one that its decoder reads back from
  what its encoder wrote.
\<close>

theorem StoreSite_LoadSite_round_trip:
  assumes "StoreSite L s domain data = (None, s1)"
    and "\<forall>j. Marshal_SiteData L data = Inr j \<longrightarrow> Decode_SiteData L (Body j None) = Inr data"
  shows "(next_fault (s3 s1) = Succeed \<longrightarrow> fst (LoadSite L s1 domain) = Inr data) \<and>
         (next_fault (s3 s1) = Succeed \<longrightarrow> fst (SiteExists L s1 domain) = (True, None)) \<and>
         (faults (s3 s1) = [] \<longrightarrow>
            fst (SiteExists L (snd (LoadSite L s1 domain)) domain) = (True, None))"
proof -
  from assms(1) obtain j where j: "Marshal_SiteData L data = Inr j"
    and s1: "s1 = s\<lparr>s3 := received (s3 s)
                  (PutObjectInput (bucket s) (domainKey L s domain) j (int (length j)) ''AES256'')
                \<lparr>objects := (objects (s3 s))((bucket s, domainKey L s domain) \<mapsto> j)\<rparr>\<rparr>"
    by (rule StoreSite_success)
  have stored: "objects (s3 s1) (bucket s1, domainKey L s1 domain) = Some j"
    by (simp add: s1)
  have decode: "Decode_SiteData L (Body j None) = Inr data"
    using assms(2) j by blast
  have load: "fst (LoadSite L s1 domain) = Inr data" if "next_fault (s3 s1) = Succeed"
    using LoadSite_served [OF that stored] decode by simp
  have exists: "fst (SiteExists L s1 domain) = (True, None)" if "next_fault (s3 s1) = Succeed"
    using SiteExists_served [OF _ stored] that by simp
  have after: "fst (SiteExists L (snd (LoadSite L s1 domain)) domain) = (True, None)"
    if "faults (s3 s1) = []"
  proof -
    from that have served: "next_fault (s3 s1) = Succeed"
      by (simp add: next_fault_def)
    let ?s2 = "s1\<lparr>s3 := received (s3 s1) (GetObjectInput (bucket s1) (domainKey L s1 domain))\<rparr>"
    have s2: "snd (LoadSite L s1 domain) = ?s2"
      using LoadSite_served [OF served stored] by simp
    have "objects (s3 ?s2) (bucket ?s2, domainKey L ?s2 domain) = Some j"
      using stored by (simp add: received_def)
    moreover have "\<And>e. next_fault (s3 ?s2) \<noteq> Fail e"
      using that by (simp add: next_fault_def received_def)
    ultimately show ?thesis
      unfolding s2 using SiteExists_served [of ?s2 L domain j] by simp
  qed
  from load exists after show ?thesis by blast
qed

theorem StoreSite_LoadSite_round_trip_witness:
  "StoreSite sample_library example_storage ''Example.com'' example_site = (None, example_stored) \<and>
   Marshal_SiteData sample_library example_site = Inr example_site_json \<and>
   Decode_SiteData sample_library (Body example_site_json None) = Inr example_site \<and>
   next_fault (s3 example_stored) = Succeed \<and>
   fst (LoadSite sample_library example_stored ''Example.com'') = Inr example_site \<and>
   fst (SiteExists sample_library example_stored ''Example.com'') = (True, None) \<and>
   fst (SiteExists sample_library (snd (LoadSite sample_library example_stored ''Example.com''))
          ''Example.com'') = (True, None)"
proof -
  have codec: "\<forall>j. Marshal_SiteData sample_library example_site = Inr j \<longrightarrow>
                   Decode_SiteData sample_library (Body j None) = Inr example_site"
    by (simp add: sample_Marshal_site sample_Decode_site)
  have served: "next_fault (s3 example_stored) = Succeed"
    by (simp add: next_fault_def example_stored_served)
  show ?thesis
    using StoreSite_LoadSite_round_trip [OF example_stored_eq(1) codec]
      example_stored_eq(1) sample_Marshal_site sample_Decode_site served example_stored_served
    by simp
qed

text \<open>
  C2, as the code has it. When the key of a domain or of an email holds no object and
  the request is served, \<^verbatim>\<open>LoadSite\<close> and \<^verbatim>\<open>LoadUser\<close> fail with the adapter's status 404
  failure, and \<^verbatim>\<open>SiteExists\<close> returns false with no error. Whatever error the adapter
  reports, \<^verbatim>\<open>LoadSite\<close> and \<^verbatim>\<open>LoadUser\<close> return that very error: the conversion to
  \<^verbatim>\<open>caddytls.ErrNotExist\<close> that they apply to a failure with status 404 leaves the value as
  it is. \<^verbatim>\<open>SiteExists\<close> returns false, with no error for a failure with status 404 and
  with the adapter's error for any other.
\<close>

theorem not_found_translation:
  "((\<forall>e. next_fault (s3 s) \<noteq> Fail e) \<and>
    objects (s3 s) (bucket s, domainKey L s domain) = None \<longrightarrow>
      fst (GetObject (s3 s) (bucket s) (domainKey L s domain)) =
        Inl (RequestFailure 404 ''NoSuchKey'') \<and>
      fst (LoadSite L s domain) = Inl (RequestFailure 404 ''NoSuchKey'') \<and>
      fst (SiteExists L s domain) = (False, None)) \<and>
   ((\<forall>e. next_fault (s3 s) \<noteq> Fail e) \<and>
    objects (s3 s) (bucket s, userKey L s email) = None \<longrightarrow>
      fst (GetObject (s3 s) (bucket s) (userKey L s email)) =
        Inl (RequestFailure 404 ''NoSuchKey'') \<and>
      fst (LoadUser L s email) = Inl (RequestFailure 404 ''NoSuchKey'')) \<and>
   (\<forall>e. next_fault (s3 s) = Fail e \<longrightarrow>
      fst (LoadSite L s domain) = Inl e \<and>
      fst (LoadUser L s email) = Inl e \<and>
      fst (SiteExists L s domain) = (False, if is_not_found e then None else Some e))"
  using LoadSite_absent [of s L domain] LoadUser_absent [of s L email]
    SiteExists_absent [of s L domain] LoadSite_failed [of s _ L domain]
    LoadUser_failed [of s _ L email] SiteExists_failed [of s _ L domain]
    GetObject_absent [of s "domainKey L s domain"] GetObject_absent [of s "userKey L s email"]
  by auto

theorem not_found_translation_witness:
  "next_fault (s3 example_storage) = Succeed \<and>
   objects (s3 example_storage)
     (bucket example_storage, domainKey sample_library example_storage ''example.com'') = None \<and>
   objects (s3 example_storage)
     (bucket example_storage, userKey sample_library example_storage ''someone@example.com'') = None \<and>
   fst (LoadSite sample_library example_storage ''example.com'') =
     Inl (RequestFailure 404 ''NoSuchKey'') \<and>
   fst (SiteExists sample_library example_storage ''example.com'') = (False, None) \<and>
   fst (LoadUser sample_library example_storage ''someone@example.com'') =
     Inl (RequestFailure 404 ''NoSuchKey'') \<and>
   next_fault (s3 (example_faults [Fail (RequestFailure 404 ''NoSuchKey'')])) =
     Fail (RequestFailure 404 ''NoSuchKey'') \<and>
   fst (LoadSite sample_library (example_faults [Fail (RequestFailure 404 ''NoSuchKey'')])
          ''example.com'') = Inl (RequestFailure 404 ''NoSuchKey'') \<and>
   fst (SiteExists sample_library (example_faults [Fail (RequestFailure 404 ''NoSuchKey'')])
          ''example.com'') = (False, None) \<and>
   next_fault (s3 (example_faults [Fail (RequestFailure 503 ''SlowDown'')])) =
     Fail (RequestFailure 503 ''SlowDown'') \<and>
   fst (LoadSite sample_library (example_faults [Fail (RequestFailure 503 ''SlowDown'')])
          ''example.com'') = Inl (RequestFailure 503 ''SlowDown'') \<and>
   fst (LoadUser sample_library (example_faults [Fail (RequestFailure 503 ''SlowDown'')])
          ''someone@example.com'') = Inl (RequestFailure 503 ''SlowDown'') \<and>
   fst (SiteExists sample_library (example_faults [Fail (RequestFailure 503 ''SlowDown'')])
          ''example.com'') = (False, Some (RequestFailure 503 ''SlowDown''))"
proof -
  have served: "next_fault (s3 example_storage) = Succeed"
    by (simp add: example_storage_def example_client_served)
  have absent: "objects (s3 example_storage) (bucket example_storage, k) = None" for k
    by (simp add: example_storage_def example_client_def)
  note fresh = not_found_translation [of example_storage sample_library "''example.com''"
      "''someone@example.com''"]
  note missing = not_found_translation [of "example_faults [Fail (RequestFailure 404 ''NoSuchKey'')]"
      sample_library "''example.com''" "''someone@example.com''"]
  note slow = not_found_translation [of "example_faults [Fail (RequestFailure 503 ''SlowDown'')]"
      sample_library "''example.com''" "''someone@example.com''"]
  from fresh served absent have
    "fst (LoadSite sample_library example_storage ''example.com'') =
       Inl (RequestFailure 404 ''NoSuchKey'') \<and>
     fst (SiteExists sample_library example_storage ''example.com'') = (False, None) \<and>
     fst (LoadUser sample_library example_storage ''someone@example.com'') =
       Inl (RequestFailure 404 ''NoSuchKey'')"
    by simp
  moreover from missing have
    "fst (LoadSite sample_library (example_faults [Fail (RequestFailure 404 ''NoSuchKey'')])
            ''example.com'') = Inl (RequestFailure 404 ''NoSuchKey'') \<and>
     fst (SiteExists sample_library (example_faults [Fail (RequestFailure 404 ''NoSuchKey'')])
            ''example.com'') = (False, None)"
    by (simp add: example_faults_next)
  moreover from slow have
    "fst (LoadSite sample_library (example_faults [Fail (RequestFailure 503 ''SlowDown'')])
            ''example.com'') = Inl (RequestFailure 503 ''SlowDown'') \<and>
     fst (LoadUser sample_library (example_faults [Fail (RequestFailure 503 ''SlowDown'')])
            ''someone@example.com'') = Inl (RequestFailure 503 ''SlowDown'') \<and>
     fst (SiteExists sample_library (example_faults [Fail (RequestFailure 503 ''SlowDown'')])
            ''example.com'') = (False, Some (RequestFailure 503 ''SlowDown''))"
    by (simp add: example_faults_next)
  ultimately show ?thesis
    using served absent by (simp add: example_faults_next)
qed

text \<open>
  C2 as stated fails where it says that the error is never the raw error of the
  adapter: for a domain and an email that were never stored, the error that \<^verbatim>\<open>LoadSite\<close>
  and \<^verbatim>\<open>LoadUser\<close> return is the one that \<^verbatim>\<open>GetObject\<close> returned.
\<close>

theorem not_found_raw_error_counterexample:
  "fst (GetObject (s3 example_storage) (bucket example_storage)
          (domainKey sample_library example_storage ''example.com'')) =
     Inl (RequestFailure 404 ''NoSuchKey'') \<and>
   fst (LoadSite sample_library example_storage ''example.com'') =
     Inl (RequestFailure 404 ''NoSuchKey'') \<and>
   fst (GetObject (s3 example_storage) (bucket example_storage)
          (userKey sample_library example_storage ''someone@example.com'')) =
     Inl (RequestFailure 404 ''NoSuchKey'') \<and>
   fst (LoadUser sample_library example_storage ''someone@example.com'') =
     Inl (RequestFailure 404 ''NoSuchKey'')"
proof -
  have served: "\<And>e. next_fault (s3 example_storage) \<noteq> Fail e"
    by (simp add: example_storage_def example_client_served)
  have absent: "objects (s3 example_storage) (bucket example_storage, k) = None" for k
    by (simp add: example_storage_def example_client_def)
  show ?thesis
    using LoadSite_absent [OF served absent] LoadUser_absent [OF served absent]
      GetObject_absent [OF served absent]
    by simp
qed

text \<open>
  C3. A name is Unclaimed when the lock table has no entry for it and Claimed when it
  has one. \<^verbatim>\<open>TryLock\<close> of an Unclaimed name returns no waiter and no error and enters the
  name with a new wait group of counter 1, changing nothing else; \<^verbatim>\<open>TryLock\<close> of a
  Claimed name returns the wait group of the entry as the waiter and leaves the whole
  state as it is. Over any sequence of \<^verbatim>\<open>TryLock\<close> and \<^verbatim>\<open>Unlock\<close> calls the number of
  outstanding claims on a name stays between 0 and 1.
\<close>

theorem TryLock_state_machine:
  "(nameLocks s name = None \<longrightarrow>
      TryLock s name =
        (Return (None, None),
         s\<lparr>waitGroups := (waitGroups s)(nextWaitGroup s := 1),
           nextWaitGroup := Suc (nextWaitGroup s),
           nameLocks := (nameLocks s)(name \<mapsto> nextWaitGroup s)\<rparr>)) \<and>
   (\<forall>wg. nameLocks s name = Some wg \<longrightarrow>
      TryLock s name = (Return (Some wg, None), s)) \<and>
   0 \<le> outstanding name calls s (claimed s name) \<and>
   outstanding name calls s (claimed s name) \<le> 1"
  using outstanding_claimed [of name calls s]
  by (auto simp: TryLock_unclaimed TryLock_claimed)

theorem TryLock_state_machine_witness:
  "nameLocks example_storage ''example.com'' = None \<and>
   fst (TryLock example_storage ''example.com'') = Return (None, None) \<and>
   nameLocks (snd (TryLock example_storage ''example.com'')) ''example.com'' = Some 0 \<and>
   nameLocks example_locked ''example.com'' = Some 0 \<and>
   TryLock example_locked ''example.com'' = (Return (Some 0, None), example_locked) \<and>
   outstanding ''example.com''
     [Call_TryLock ''example.com'', Call_TryLock ''example.com'', Call_Unlock ''example.com'',
      Call_TryLock ''example.com''] example_storage 0 \<le> 1"
proof -
  let ?calls = "[Call_TryLock ''example.com'', Call_TryLock ''example.com'',
                 Call_Unlock ''example.com'', Call_TryLock ''example.com'']"
  note fresh = TryLock_state_machine [of example_storage "''example.com''" ?calls]
  note held = TryLock_state_machine [of example_locked "''example.com''" "[]"]
  have unclaimed: "nameLocks example_storage ''example.com'' = None"
    by (rule example_storage_unclaimed)
  have "claimed example_storage ''example.com'' = 0"
    by (simp add: claimed_def unclaimed)
  with fresh have count: "outstanding ''example.com'' ?calls example_storage 0 \<le> 1"
    by (simp del: outstanding.simps)
  from fresh unclaimed have
    "TryLock example_storage ''example.com'' =
       (Return (None, None),
        example_storage\<lparr>waitGroups := (waitGroups example_storage)(nextWaitGroup example_storage := 1),
          nextWaitGroup := Suc (nextWaitGroup example_storage),
          nameLocks := (nameLocks example_storage)(''example.com'' \<mapsto> nextWaitGroup example_storage)\<rparr>)"
    by blast
  then have acquired:
    "fst (TryLock example_storage ''example.com'') = Return (None, None) \<and>
     nameLocks (snd (TryLock example_storage ''example.com'')) ''example.com'' = Some 0"
    by (simp add: example_storage_def)
  from held example_locked_claimed have
    "TryLock example_locked ''example.com'' = (Return (Some 0, None), example_locked)"
    by blast
  with unclaimed acquired example_locked_claimed count show ?thesis
    by blast
qed

text \<open>
  C4. In every reachable state, \<^verbatim>\<open>Unlock\<close> of a Claimed name returns no error, removes
  the entry from the lock table and brings the counter of its wait group from 1 to 0,
  so that \<^verbatim>\<open>Wait\<close> on the waiter, which blocked before, no longer blocks; \<^verbatim>\<open>Unlock\<close> of
  a name that is not Claimed returns the error "no lock to release" and changes
  nothing.
\<close>

theorem Unlock_transitions:
  "reachable s \<Longrightarrow>
   (\<forall>wg. nameLocks s name = Some wg \<longrightarrow>
      Wait_blocks s wg \<and>
      Unlock s name =
        (Return None,
         s\<lparr>waitGroups := (waitGroups s)(wg := 0),
           nameLocks := (nameLocks s)(name := None)\<rparr>) \<and>
      nameLocks (snd (Unlock s name)) name = None \<and>
      \<not> Wait_blocks (snd (Unlock s name)) wg) \<and>
   (nameLocks s name = None \<longrightarrow>
      Unlock s name =
        (Return (Some (ErrorString (''S3Storage: no lock to release for '' @ name))), s))"
proof -
  assume "reachable s"
  then have inv: "lock_inv s" by (rule reachable_lock_inv)
  have one: "waitGroups s wg = 1" if "nameLocks s name = Some wg" for wg
    using inv that unfolding lock_inv_def by blast
  show ?thesis
    using one by (auto simp: Unlock_claimed Unlock_unclaimed Wait_blocks_def)
qed

theorem Unlock_transitions_witness:
  "reachable example_locked \<and>
   nameLocks example_locked ''example.com'' = Some 0 \<and>
   Wait_blocks example_locked 0 \<and>
   fst (Unlock example_locked ''example.com'') = Return None \<and>
   nameLocks (snd (Unlock example_locked ''example.com'')) ''example.com'' = None \<and>
   \<not> Wait_blocks (snd (Unlock example_locked ''example.com'')) 0 \<and>
   reachable example_storage \<and>
   nameLocks example_storage ''example.com'' = None \<and>
   Unlock example_storage ''example.com'' =
     (Return (Some (ErrorString ''S3Storage: no lock to release for example.com'')),
      example_storage)"
  using Unlock_transitions [OF example_locked_reachable, of "''example.com''"]
        Unlock_transitions [OF example_storage_reachable, of "''example.com''"]
        example_locked_reachable example_storage_reachable example_locked_claimed
  by (simp add: example_storage_unclaimed Wait_blocks_def)

text \<open>
  After \<^verbatim>\<open>StoreUser\<close> of a record for an email has returned no error, and as long as the
  object store serves the next request, \<^verbatim>\<open>MostRecentUserEmail\<close> returns exactly that
  email, and \<^verbatim>\<open>LoadUser\<close> of the email returns the record when the user key of the
  email is not the key of the pointer, that is when the email in lower case is not
  \<^verbatim>\<open>recent\<close>.
\<close>

lemma StoreUser_LoadUser_other_keys:
  assumes "StoreUser L s email data = (None, s1)"
    and "\<forall>j. Marshal_UserData L data = Inr j \<longrightarrow> Decode_UserData L (Body j None) = Inr data"
  shows "(next_fault (s3 s1) = Succeed \<and> strings_ToLower L email \<noteq> ''recent'' \<longrightarrow>
            fst (LoadUser L s1 email) = Inr data) \<and>
         (next_fault (s3 s1) = Succeed \<longrightarrow> fst (MostRecentUserEmail L s1) = email)"
proof -
  from assms(1) obtain j where j: "Marshal_UserData L data = Inr j"
    and s1: "s1 = s\<lparr>s3 := (s3 s)\<lparr>objects := (objects (s3 s))
                          ((bucket s, userKey L s email) \<mapsto> j,
                           (bucket s, userKey L s ''recent'') \<mapsto> email),
                        faults := tl (tl (faults (s3 s))),
                        requests := requests (s3 s) @
                          [PutObjectInput (bucket s) (userKey L s email) j (int (length j)) ''AES256'',
                           PutObjectInput (bucket s) (userKey L s ''recent'') email
                             (int (length email)) ''AES256'']\<rparr>\<rparr>"
    by (rule StoreUser_success)
  have decode: "Decode_UserData L (Body j None) = Inr data"
    using assms(2) j by blast
  have pointer: "objects (s3 s1) (bucket s1, userKey L s1 ''recent'') = Some email"
    by (simp add: s1)
  have kept: "objects (s3 s1) (bucket s1, userKey L s1 email) = Some j"
    if "strings_ToLower L email \<noteq> ''recent''"
    using that by (simp add: s1 userKey_eq_iff ToLower_recent)
  have load: "fst (LoadUser L s1 email) = Inr data"
    if "next_fault (s3 s1) = Succeed" and "strings_ToLower L email \<noteq> ''recent''"
    using LoadUser_served [OF that(1) kept [OF that(2)]] decode by simp
  have recent: "fst (MostRecentUserEmail L s1) = email" if "next_fault (s3 s1) = Succeed"
    using MostRecentUserEmail_served [OF that pointer] .
  from load recent show ?thesis by blast
qed

text \<open>
  C5. The code does not do what the claim says for the email \<^verbatim>\<open>recent\<close>: the user key
  of that email is the key of the pointer. \<^verbatim>\<open>StoreUser\<close> sends the encoded record and
  then the plain text \<^verbatim>\<open>recent\<close> to the same key and returns no error; the object store
  serves the next request, and \<^verbatim>\<open>LoadUser\<close> finds the text \<^verbatim>\<open>recent\<close> there and fails with
  the syntax error of the JSON decoder instead of returning the record, which the
  library does encode and decode.
\<close>

theorem StoreUser_recent_collision:
  "userKey sample_library example_storage ''recent'' = ''acme/ca.example/user/recent'' \<and>
   StoreUser sample_library example_storage ''recent'' example_user = (None, example_recent) \<and>
   requests (s3 example_recent) =
     [PutObjectInput ''bucket'' ''acme/ca.example/user/recent'' example_user_json
        (int (length example_user_json)) ''AES256'',
      PutObjectInput ''bucket'' ''acme/ca.example/user/recent'' ''recent'' 6 ''AES256''] \<and>
   objects (s3 example_recent) (''bucket'', ''acme/ca.example/user/recent'') = Some ''recent'' \<and>
   Marshal_UserData sample_library example_user = Inr example_user_json \<and>
   Decode_UserData sample_library (Body example_user_json None) = Inr example_user \<and>
   next_fault (s3 example_recent) = Succeed \<and>
   fst (LoadUser sample_library example_recent ''recent'') =
     Inl (SyntaxError CHR ''r'' ''looking for beginning of value'') \<and>
   fst (LoadUser sample_library example_recent ''recent'') \<noteq> Inr example_user \<and>
   fst (MostRecentUserEmail sample_library example_recent) = ''recent''"
proof -
  have served: "next_fault (s3 example_recent) = Succeed"
    by (simp add: next_fault_def example_recent_eq(2))
  have load: "fst (LoadUser sample_library example_recent ''recent'') =
          Inl (SyntaxError CHR ''r'' ''looking for beginning of value'')"
    using LoadUser_served [OF served example_recent_eq(3)] sample_Decode_recent by simp
  have pointer: "fst (MostRecentUserEmail sample_library example_recent) = ''recent''"
    using MostRecentUserEmail_served [OF served example_recent_eq(3)] .
  from load pointer show ?thesis
    using example_recent_eq(1) example_recent_eq(4) example_recent_eq(5) sample_Marshal_user
      sample_Decode_user served
    by (simp add: example_keys)
qed

text \<open>
  C6. Once the record is encoded, \<^verbatim>\<open>StoreUser\<close> sends the encoded record to the user key
  of the email. If that request fails, its error is returned, no other request is sent
  and no object has changed. Otherwise a second request follows, with the email as it
  was given to the key of the pointer, so that exactly these two writes have been sent
  in this order; if the second fails, its error is returned while the record is stored
  at the user key, and if it succeeds, no error is returned and both objects are
  stored.
\<close>

theorem StoreUser_two_writes:
  assumes "Marshal_UserData L data = Inr j"
  shows
   "(\<forall>e. next_fault (s3 s) = Fail e \<longrightarrow>
       fst (StoreUser L s email data) = Some e \<and>
       requests (s3 (snd (StoreUser L s email data))) =
         requests (s3 s) @
           [PutObjectInput (bucket s) (userKey L s email) j (int (length j)) ''AES256''] \<and>
       objects (s3 (snd (StoreUser L s email data))) = objects (s3 s)) \<and>
    ((\<forall>e. next_fault (s3 s) \<noteq> Fail e) \<longrightarrow>
       requests (s3 (snd (StoreUser L s email data))) =
         requests (s3 s) @
           [PutObjectInput (bucket s) (userKey L s email) j (int (length j)) ''AES256'',
            PutObjectInput (bucket s) (userKey L s ''recent'') email (int (length email))
              ''AES256''] \<and>
       (\<forall>e. next_fault ((s3 s)\<lparr>faults := tl (faults (s3 s))\<rparr>) = Fail e \<longrightarrow>
          fst (StoreUser L s email data) = Some e \<and>
          objects (s3 (snd (StoreUser L s email data))) =
            (objects (s3 s))((bucket s, userKey L s email) \<mapsto> j)) \<and>
       ((\<forall>e. next_fault ((s3 s)\<lparr>faults := tl (faults (s3 s))\<rparr>) \<noteq> Fail e) \<longrightarrow>
          fst (StoreUser L s email data) = None \<and>
          objects (s3 (snd (StoreUser L s email data))) =
            (objects (s3 s))((bucket s, userKey L s email) \<mapsto> j,
                             (bucket s, userKey L s ''recent'') \<mapsto> email)))"
  unfolding StoreUser_result [OF assms]
  by (cases "next_fault (s3 s)"; cases "next_fault ((s3 s)\<lparr>faults := tl (faults (s3 s))\<rparr>)")
     simp_all

theorem StoreUser_two_writes_witness:
  "Marshal_UserData sample_library example_user = Inr example_user_json \<and>
   next_fault (s3 (example_faults [Fail (ErrorString ''timeout'')])) = Fail (ErrorString ''timeout'') \<and>
   fst (StoreUser sample_library (example_faults [Fail (ErrorString ''timeout'')])
          ''Someone@example.com'' example_user) = Some (ErrorString ''timeout'') \<and>
   requests (s3 (snd (StoreUser sample_library (example_faults [Fail (ErrorString ''timeout'')])
          ''Someone@example.com'' example_user))) =
     [PutObjectInput ''bucket'' ''acme/ca.example/user/someone@example.com'' example_user_json
        (int (length example_user_json)) ''AES256''] \<and>
   next_fault (s3 (example_faults [Succeed, Fail (ErrorString ''timeout'')])) = Succeed \<and>
   fst (StoreUser sample_library (example_faults [Succeed, Fail (ErrorString ''timeout'')])
          ''Someone@example.com'' example_user) = Some (ErrorString ''timeout'') \<and>
   requests (s3 (snd (StoreUser sample_library
          (example_faults [Succeed, Fail (ErrorString ''timeout'')])
          ''Someone@example.com'' example_user))) =
     [PutObjectInput ''bucket'' ''acme/ca.example/user/someone@example.com'' example_user_json
        (int (length example_user_json)) ''AES256'',
      PutObjectInput ''bucket'' ''acme/ca.example/user/recent'' ''Someone@example.com'' 19
        ''AES256''] \<and>
   objects (s3 (snd (StoreUser sample_library
          (example_faults [Succeed, Fail (ErrorString ''timeout'')])
          ''Someone@example.com'' example_user))) =
     [(''bucket'', ''acme/ca.example/user/someone@example.com'') \<mapsto> example_user_json] \<and>
   fst (StoreUser sample_library (example_faults [Succeed, Succeed])
          ''Someone@example.com'' example_user) = None \<and>
   objects (s3 (snd (StoreUser sample_library (example_faults [Succeed, Succeed])
          ''Someone@example.com'' example_user))) =
     [(''bucket'', ''acme/ca.example/user/someone@example.com'') \<mapsto> example_user_json,
      (''bucket'', ''acme/ca.example/user/recent'') \<mapsto> ''Someone@example.com'']"
  using StoreUser_two_writes [OF sample_Marshal_user,
          of "example_faults [Fail (ErrorString ''timeout'')]" "''Someone@example.com''"]
        StoreUser_two_writes [OF sample_Marshal_user,
          of "example_faults [Succeed, Fail (ErrorString ''timeout'')]" "''Someone@example.com''"]
        StoreUser_two_writes [OF sample_Marshal_user,
          of "example_faults [Succeed, Succeed]" "''Someone@example.com''"]
  by (simp add: example_faults_next example_faults_fields sample_Marshal_user)




text \<open>
  C8. \<^verbatim>\<open>MostRecentUserEmail\<close> returns the empty string when the pointer key holds no
  object, when the adapter fails the request with whatever error, and when reading the
  body fails. Its result is a string alone: there is no error for it to return.
\<close>

theorem MostRecentUserEmail_failures:
  "((\<forall>e. next_fault (s3 s) \<noteq> Fail e) \<and>
    objects (s3 s) (bucket s, userKey L s ''recent'') = None \<longrightarrow>
      fst (MostRecentUserEmail L s) = '''') \<and>
   (\<forall>e. next_fault (s3 s) = Fail e \<longrightarrow> fst (MostRecentUserEmail L s) = '''') \<and>
   (\<forall>n e. next_fault (s3 s) = FailBody n e \<longrightarrow> fst (MostRecentUserEmail L s) = '''')"
  by (cases "next_fault (s3 s)")
     (auto simp: MostRecentUserEmail_def GetObject_result split: option.splits)

theorem MostRecentUserEmail_failures_witness:
  "next_fault (s3 example_storage) = Succeed \<and>
   objects (s3 example_storage)
     (bucket example_storage, userKey sample_library example_storage ''recent'') = None \<and>
   fst (MostRecentUserEmail sample_library example_storage) = [] \<and>
   next_fault (s3 (example_faults [Fail (ErrorString ''timeout'')])) =
     Fail (ErrorString ''timeout'') \<and>
   fst (MostRecentUserEmail sample_library (example_faults [Fail (ErrorString ''timeout'')])) = [] \<and>
   next_fault (s3 (example_holding ''acme/ca.example/user/recent'' ''someone@example.com''
                     (FailBody 7 (ErrorString ''connection reset'')))) =
     FailBody 7 (ErrorString ''connection reset'') \<and>
   fst (MostRecentUserEmail sample_library
          (example_holding ''acme/ca.example/user/recent'' ''someone@example.com''
             (FailBody 7 (ErrorString ''connection reset'')))) = []"
proof -
  have served: "next_fault (s3 example_storage) = Succeed"
    by (simp add: example_storage_def example_client_served)
  have absent: "objects (s3 example_storage) (bucket example_storage, k) = None" for k
    by (simp add: example_storage_def example_client_def)
  show ?thesis
    using MostRecentUserEmail_failures [of example_storage sample_library]
      MostRecentUserEmail_failures [of "example_faults [Fail (ErrorString ''timeout'')]"
        sample_library]
      MostRecentUserEmail_failures [of
        "example_holding ''acme/ca.example/user/recent'' ''someone@example.com''
           (FailBody 7 (ErrorString ''connection reset''))" sample_library]
    by (simp add: served absent example_faults_next example_holding_fields)
qed

text \<open>
  C9. In every reachable state the prefix is \<^verbatim>\<open>acme/\<close> and the host of the CA, followed
  by a slash; with that configured prefix \<open>p\<close>, the key of a domain is \<open>p\<close>, \<^verbatim>\<open>/domain/\<close> and
  the domain in lower case, the key of an email is \<open>p\<close>, \<^verbatim>\<open>/user/\<close> and the email in lower
  case, and the pointer is at \<open>p\<close> and \<^verbatim>\<open>/user/recent\<close>. Hence a record stored under one
  casing of a domain is what \<^verbatim>\<open>LoadSite\<close> returns under any other casing, that is for
  any domain with the same lower case.
\<close>

theorem key_derivation:
  assumes "reachable s"
  shows
   "(\<exists>host. prefix s = (''acme/'' @ host) @ ''/'' \<and>
       (\<forall>domain. domainKey L s domain =
          (''acme/'' @ host) @ ''/domain/'' @ strings_ToLower L domain) \<and>
       (\<forall>email. userKey L s email =
          (''acme/'' @ host) @ ''/user/'' @ strings_ToLower L email) \<and>
       userKey L s ''recent'' = (''acme/'' @ host) @ ''/user/recent'') \<and>
    (strings_ToLower L domain = strings_ToLower L domain' \<and>
     StoreSite L s domain data = (None, s1) \<and>
     (\<forall>j. Marshal_SiteData L data = Inr j \<longrightarrow> Decode_SiteData L (Body j None) = Inr data) \<and>
     next_fault (s3 s1) = Succeed \<longrightarrow>
       fst (LoadSite L s1 domain') = Inr data)"
proof -
  from assms obtain host where host: "prefix s = ''acme/'' @ host @ ''/''"
    using reachable_prefix by blast
  then have keys:
    "\<exists>host. prefix s = (''acme/'' @ host) @ ''/'' \<and>
       (\<forall>domain. domainKey L s domain =
          (''acme/'' @ host) @ ''/domain/'' @ strings_ToLower L domain) \<and>
       (\<forall>email. userKey L s email =
          (''acme/'' @ host) @ ''/user/'' @ strings_ToLower L email) \<and>
       userKey L s ''recent'' = (''acme/'' @ host) @ ''/user/recent''"
    by (intro exI [of _ host]) (simp add: domainKey_def userKey_def ToLower_recent)
  have "fst (LoadSite L s1 domain') = Inr data"
    if same: "strings_ToLower L domain = strings_ToLower L domain'"
      and store: "StoreSite L s domain data = (None, s1)"
      and codec: "\<forall>j. Marshal_SiteData L data = Inr j \<longrightarrow>
                        Decode_SiteData L (Body j None) = Inr data"
      and served: "next_fault (s3 s1) = Succeed"
  proof -
    from store obtain j where j: "Marshal_SiteData L data = Inr j"
      and s1: "s1 = s\<lparr>s3 := received (s3 s)
                  (PutObjectInput (bucket s) (domainKey L s domain) j (int (length j)) ''AES256'')
                \<lparr>objects := (objects (s3 s))((bucket s, domainKey L s domain) \<mapsto> j)\<rparr>\<rparr>"
      by (rule StoreSite_success)
    have "domainKey L s domain' = domainKey L s domain"
      using same by (simp add: domainKey_eq_iff)
    then have "objects (s3 s1) (bucket s1, domainKey L s1 domain') = Some j"
      by (simp add: s1)
    from LoadSite_served [OF served this] codec j show ?thesis by simp
  qed
  with keys show ?thesis by blast
qed

theorem key_derivation_witness:
  "reachable example_storage \<and>
   prefix example_storage = ''acme/ca.example/'' \<and>
   domainKey sample_library example_storage ''Example.com'' =
     ''acme/ca.example/domain/example.com'' \<and>
   userKey sample_library example_storage ''Someone@example.com'' =
     ''acme/ca.example/user/someone@example.com'' \<and>
   userKey sample_library example_storage ''recent'' = ''acme/ca.example/user/recent'' \<and>
   strings_ToLower sample_library ''Example.com'' = strings_ToLower sample_library ''example.com'' \<and>
   StoreSite sample_library example_storage ''Example.com'' example_site = (None, example_stored) \<and>
   Marshal_SiteData sample_library example_site = Inr example_site_json \<and>
   Decode_SiteData sample_library (Body example_site_json None) = Inr example_site \<and>
   next_fault (s3 example_stored) = Succeed \<and>
   fst (LoadSite sample_library example_stored ''example.com'') = Inr example_site"
proof -
  have same: "strings_ToLower sample_library ''Example.com'' =
              strings_ToLower sample_library ''example.com''"
    by code_simp
  have codec: "\<forall>j. Marshal_SiteData sample_library example_site = Inr j \<longrightarrow>
                   Decode_SiteData sample_library (Body j None) = Inr example_site"
    by (simp add: sample_Marshal_site sample_Decode_site)
  have served: "next_fault (s3 example_stored) = Succeed"
    by (simp add: next_fault_def example_stored_served)
  from key_derivation [OF example_storage_reachable, of sample_library "''Example.com''"
      "''example.com''" example_site example_stored]
    same example_stored_eq(1) codec served
  have "fst (LoadSite sample_library example_stored ''example.com'') = Inr example_site"
    by blast
  then show ?thesis
    using example_storage_reachable same example_stored_eq(1) sample_Marshal_site
      sample_Decode_site served
    by (simp add: example_keys) (simp add: example_storage_def)
qed

text \<open>
  C10. \<^verbatim>\<open>TryLock\<close> never fails: in every state and for every name it returns, without
  panic, a result whose error is nil.
\<close>

theorem TryLock_error_nil:
  "\<exists>waiter s'. TryLock s name = (Return (waiter, None), s')"
  by (cases "nameLocks s name") (simp_all add: TryLock_unclaimed TryLock_claimed)

end
